theory Spec2Isabelle
  imports Complex_Main "HOL-Library.AList"
begin

section \<open>Values and errors\<close>

text \<open>
  The program is the class \<open>Trainer\<close> of \<open>src/train.py\<close>. Its methods are embedded
  as functions on an explicit trainer state; every \<open>raise\<close> of the Python is a value
  \<open>Inl e\<close> of the result type.
\<close>

datatype error =
  ValueError | ZeroDivisionError | TypeError | KeyError | IndexError
  | AttributeError | OSError | FileExistsError | FileNotFoundError

text \<open>
  A NumPy \<open>float64\<close>, idealised: a finite value is an exact rational (rounding is not
  modelled), and the two special values that a true division of counts can give,
  \<open>nan\<close> for \<open>0/0\<close> and \<open>inf\<close> for \<open>a/0\<close> with \<open>a > 0\<close>, are kept apart. NumPy
  warns on them and does not raise.
\<close>

datatype float64 = Fin rat | PosInf | NaN

fun float_add :: "float64 \<Rightarrow> float64 \<Rightarrow> float64" where
  "float_add (Fin a) (Fin b) = Fin (a + b)"
| "float_add NaN y = NaN"
| "float_add x NaN = NaN"
| "float_add PosInf y = PosInf"
| "float_add x PosInf = PosInf"

text \<open>\<open>a / b\<close> on two \<open>numpy.int64\<close> counts.\<close>

definition np_true_divide :: "nat \<Rightarrow> nat \<Rightarrow> float64" where
  "np_true_divide a b =
     (if b = 0 then (if a = 0 then NaN else PosInf) else Fin (of_nat a / of_nat b))"

text \<open>\<open>x / n\<close> for a \<open>float64\<close> \<open>x\<close> and the positive Python integer \<open>n = len(results)\<close>.\<close>

fun float_div_len :: "float64 \<Rightarrow> nat \<Rightarrow> float64" where
  "float_div_len (Fin a) n = Fin (a / of_nat n)"
| "float_div_len PosInf n = PosInf"
| "float_div_len NaN n = NaN"

text \<open>
  Rounding to the nearest \<open>float64\<close>, ties to even (IEEE 754 binary64, 53 significant
  bits), of a rational in the normal range; overflow and subnormal numbers are not
  modelled. It is used where a rounded value decides a comparison.
\<close>

function bit_length :: "int \<Rightarrow> nat" where
  "bit_length n = (if n \<le> 0 then 0 else Suc (bit_length (n div 2)))"
  by pat_completeness auto
termination
  by (relation "measure nat") auto

declare bit_length.simps [simp del]

definition pow2 :: "int \<Rightarrow> rat" where
  "pow2 e = (if 0 \<le> e then 2 ^ nat e else 1 / 2 ^ nat (- e))"

text \<open>The \<open>e\<close> with \<open>2^e \<le> x < 2^(e+1)\<close>, for \<open>x > 0\<close>.\<close>

definition binary_exponent :: "rat \<Rightarrow> int" where
  "binary_exponent x =
     (let e = int (bit_length (fst (quotient_of x))) - int (bit_length (snd (quotient_of x)))
      in if pow2 e \<le> x then e else e - 1)"

definition round_half_even :: "rat \<Rightarrow> int" where
  "round_half_even q =
     (let f = \<lfloor>q\<rfloor>; r = q - of_int f
      in if r < 1 / 2 then f else if 1 / 2 < r then f + 1
         else if even f then f else f + 1)"

definition float64_round :: "rat \<Rightarrow> rat" where
  "float64_round x =
     (if x = 0 then 0
      else let ulp = pow2 (binary_exponent \<bar>x\<bar> - 52)
           in sgn x * of_int (round_half_even (\<bar>x\<bar> / ulp)) * ulp)"

section \<open>Evaluation: \<open>test_model_additional_metrics\<close>\<close>

text \<open>
  A test sample is the pair \<open>(d, r)\<close> of the loop body after binarisation and
  \<open>flatten()\<close>: \<open>d\<close> is the ground-truth mask at threshold 0.5, \<open>r\<close> the Otsu-thresholded
  prediction. The thresholding itself (OpenCV) is outside the model. The list of
  samples is \<open>zip(results, test_masks)\<close>; \<open>results\<close> holds one prediction per test
  image and the split has as many masks as images, so \<open>len(results)\<close> is its length.
\<close>

type_synonym sample = "bool list \<times> bool list"

definition count_pixels :: "(bool \<times> bool \<Rightarrow> bool) \<Rightarrow> bool list \<Rightarrow> bool list \<Rightarrow> nat" where
  "count_pixels P d r = length (filter P (zip d r))"

text \<open>\<open>np.logical_and(d, r).sum()\<close> and \<open>np.logical_or(d, r).sum()\<close>.\<close>

definition logical_and_sum :: "bool list \<Rightarrow> bool list \<Rightarrow> nat" where
  "logical_and_sum d r = count_pixels (\<lambda>(x, y). x \<and> y) d r"

definition logical_or_sum :: "bool list \<Rightarrow> bool list \<Rightarrow> nat" where
  "logical_or_sum d r = count_pixels (\<lambda>(x, y). x \<or> y) d r"

text \<open>
  scikit-learn's \<open>confusion_matrix(y_true, y_pred)\<close> without \<open>labels\<close>: the matrix is
  indexed by the sorted labels that occur in either argument, so it is 2 by 2 only when
  both \<open>False\<close> and \<open>True\<close> occur; \<open>ravel()\<close> lists it row by row.
\<close>

definition unique_labels :: "bool list \<Rightarrow> bool list \<Rightarrow> bool list" where
  "unique_labels y_true y_pred = filter (\<lambda>l. l \<in> set (y_true @ y_pred)) [False, True]"

definition confusion_matrix :: "bool list \<Rightarrow> bool list \<Rightarrow> nat list list" where
  "confusion_matrix y_true y_pred =
     (let labels = unique_labels y_true y_pred
      in map (\<lambda>i. map (\<lambda>j. count_pixels (\<lambda>(t, p). t = i \<and> p = j) y_true y_pred) labels) labels)"

definition ravel :: "nat list list \<Rightarrow> nat list" where
  "ravel m = concat m"

text \<open>
  scikit-learn's binary \<open>jaccard_score\<close> (positive label \<open>True\<close>):
  \<open>tp / (tp + fp + fn)\<close>, and 0 with a warning when the denominator is 0.
\<close>

definition jaccard_score :: "bool list \<Rightarrow> bool list \<Rightarrow> rat" where
  "jaccard_score y_true y_pred =
     (let tp' = count_pixels (\<lambda>(t, p). t \<and> p) y_true y_pred;
          fp' = count_pixels (\<lambda>(t, p). \<not> t \<and> p) y_true y_pred;
          fn' = count_pixels (\<lambda>(t, p). t \<and> \<not> p) y_true y_pred
      in if tp' + fp' + fn' = 0 then 0 else of_nat tp' / of_nat (tp' + fp' + fn'))"

text \<open>
  The local variables of the loop. The pixel counts are \<open>numpy.int64\<close> in the source;
  they are natural numbers here, their overflow (beyond \<open>2^63\<close> pixels) is not modelled.
  \<open>test_jacc_sum\<close> is the \<open>float64\<close> value of the variable, rounded at every operation as
  the machine does, because the threshold test reads it. \<open>test_jacc_sum_exact\<close> is the
  same sum without rounding; the reported mean is taken from it, as the other reported
  ratios are exact values.
\<close>

record accum =
  jacc_sum :: float64
  tn :: nat
  tp :: nat
  fp :: nat
  fn :: nat
  test_jacc_sum :: rat
  test_jacc_sum_exact :: rat
  test_jacc_above_thresh :: nat

definition init_accum :: accum where
  "init_accum = \<lparr>jacc_sum = Fin 0, tn = 0, tp = 0, fp = 0, fn = 0,
                 test_jacc_sum = 0, test_jacc_sum_exact = 0, test_jacc_above_thresh = 0\<rparr>"

text \<open>
  One iteration. Arrays of different length make \<open>np.logical_and\<close> (or, when one of them
  has a single element and broadcasts, \<open>confusion_matrix\<close>) raise \<open>ValueError\<close>; so does
  the four-way unpack of a ravel that has not exactly four cells. The threshold test
  reads \<open>test_jacc_sum\<close> before the sample's own score is added; the literal \<open>0.65\<close> is
  the \<open>float64\<close> nearest to 13/20, the library score the \<open>float64\<close> nearest to the
  quotient of its two counts, and the sum is rounded after the addition.
\<close>

definition loop_body :: "accum \<Rightarrow> sample \<Rightarrow> error + accum" where
  "loop_body a s =
     (case s of (d, r) \<Rightarrow>
        if length d \<noteq> length r then Inl ValueError
        else
          let inter = logical_and_sum d r;
              union = logical_or_sum d r;
              a1 = a\<lparr>jacc_sum := float_add (jacc_sum a) (np_true_divide inter union)\<rparr>
          in case ravel (confusion_matrix d r) of
               [tn', fp', fn', tp'] \<Rightarrow>
                 let a2 = a1\<lparr>tn := tn a1 + tn', tp := tp a1 + tp',
                             fp := fp a1 + fp', fn := fn a1 + fn'\<rparr>;
                     score = jaccard_score d r;
                     a3 = (if float64_round (13 / 20) \<le> test_jacc_sum a2
                           then a2\<lparr>test_jacc_above_thresh := test_jacc_above_thresh a2 + 1\<rparr>
                           else a2)
                 in Inr (a3\<lparr>test_jacc_sum :=
                               float64_round (test_jacc_sum a3 + float64_round score),
                             test_jacc_sum_exact := test_jacc_sum_exact a3 + score\<rparr>)
             | _ \<Rightarrow> Inl ValueError)"

fun metrics_loop :: "accum \<Rightarrow> sample list \<Rightarrow> error + accum" where
  "metrics_loop a [] = Inr a"
| "metrics_loop a (s # ss) =
     (case loop_body a s of Inl e \<Rightarrow> Inl e | Inr a' \<Rightarrow> metrics_loop a' ss)"

text \<open>
  What the method prints, logs and returns. With no sample the accumulators are still
  the Python integer 0 and the first division raises \<open>ZeroDivisionError\<close>; with at least
  one sample they are NumPy values and a zero denominator gives \<open>nan\<close>. The returned
  array has \<open>dtype=np.float\<close>, the alias of \<open>float\<close> that NumPy had up to version 1.23.
\<close>

record metrics =
  jaccard_index :: float64
  test_sensitivity :: float64
  test_specifitivity :: float64
  test_accuracy :: float64
  test_precision :: float64
  test_jaccard_score :: float64
  test_dicecoef :: float64
  isic_eval_score :: rat
  returned :: "float64 list"

definition final_metrics :: "accum \<Rightarrow> nat \<Rightarrow> metrics" where
  "final_metrics a n =
     (let sensitivity = np_true_divide (tp a) (tp a + fn a);
          specifitivity = np_true_divide (tn a) (tn a + fp a);
          accuracy = np_true_divide (tp a + tn a) (tp a + tn a + fp a + fn a);
          dsc = np_true_divide (2 * tp a) (2 * tp a + fp a + fn a);
          jaccard = Fin (test_jacc_sum_exact a / of_nat n);
          precision = np_true_divide (tp a) (tp a + fp a)
      in \<lparr>jaccard_index = float_div_len (jacc_sum a) n,
          test_sensitivity = sensitivity,
          test_specifitivity = specifitivity,
          test_accuracy = accuracy,
          test_precision = precision,
          test_jaccard_score = jaccard,
          test_dicecoef = dsc,
          isic_eval_score = of_nat (test_jacc_above_thresh a) / of_nat n,
          returned = [accuracy, jaccard, precision, sensitivity, specifitivity]\<rparr>)"

definition test_model_additional_metrics :: "sample list \<Rightarrow> error + metrics" where
  "test_model_additional_metrics samples =
     (case metrics_loop init_accum samples of
        Inl e \<Rightarrow> Inl e
      | Inr a \<Rightarrow>
          if samples = [] then Inl ZeroDivisionError
          else Inr (final_metrics a (length samples)))"


text \<open>
  Per-sample quantities in which the results are stated: the four cells of the sample's
  confusion matrix, its intersection-over-union, and whether it is well formed (both
  arrays of one length, both labels present between them).
\<close>

definition sample_tn :: "sample \<Rightarrow> nat" where
  "sample_tn s = count_pixels (\<lambda>(t, p). \<not> t \<and> \<not> p) (fst s) (snd s)"

definition sample_fp :: "sample \<Rightarrow> nat" where
  "sample_fp s = count_pixels (\<lambda>(t, p). \<not> t \<and> p) (fst s) (snd s)"

definition sample_fn :: "sample \<Rightarrow> nat" where
  "sample_fn s = count_pixels (\<lambda>(t, p). t \<and> \<not> p) (fst s) (snd s)"

definition sample_tp :: "sample \<Rightarrow> nat" where
  "sample_tp s = count_pixels (\<lambda>(t, p). t \<and> p) (fst s) (snd s)"

definition sample_jaccard :: "sample \<Rightarrow> rat" where
  "sample_jaccard s =
     of_nat (logical_and_sum (fst s) (snd s)) / of_nat (logical_or_sum (fst s) (snd s))"

definition both_labels :: "bool list \<Rightarrow> bool list \<Rightarrow> bool" where
  "both_labels d r = (True \<in> set (d @ r) \<and> False \<in> set (d @ r))"

definition well_formed :: "sample \<Rightarrow> bool" where
  "well_formed s = (length (fst s) = length (snd s) \<and> both_labels (fst s) (snd s))"

text \<open>
  The \<open>float64\<close> sum of a list of scores added one by one to a starting value, the
  threshold counter as a function of the starting sum and the scores to come, and the
  \<open>float64\<close> sum of the library scores of the first \<open>i\<close> samples.
\<close>

fun float_sum :: "rat \<Rightarrow> rat list \<Rightarrow> rat" where
  "float_sum s [] = s"
| "float_sum s (x # xs) = float_sum (float64_round (s + float64_round x)) xs"

fun count_above :: "rat \<Rightarrow> rat list \<Rightarrow> nat" where
  "count_above s [] = 0"
| "count_above s (x # xs) =
     (if float64_round (13 / 20) \<le> s then 1 else 0)
       + count_above (float64_round (s + float64_round x)) xs"

definition running_sum :: "sample list \<Rightarrow> nat \<Rightarrow> rat" where
  "running_sum samples i =
     float_sum 0 (map (\<lambda>s. jaccard_score (fst s) (snd s)) (take i samples))"


section \<open>Python values and dictionaries\<close>

text \<open>
  The values of the option dictionaries: integers, floats (idealised as rationals),
  booleans and strings, the types of the defaults. Strings are ASCII.
\<close>

datatype pyval = PyInt int | PyFloat rat | PyBool bool | PyStr string

text \<open>
  A \<open>dict\<close> with string keys, in insertion order: \<open>AList.update\<close> overwrites the value of
  a key in place and appends a new key, as assignment to \<open>d[key]\<close> does.
\<close>

type_synonym dict = "(string \<times> pyval) list"

definition bind_err :: "error + 'a \<Rightarrow> ('a \<Rightarrow> error + 'b) \<Rightarrow> error + 'b" where
  "bind_err m f = (case m of Inl e \<Rightarrow> Inl e | Inr x \<Rightarrow> f x)"

definition getitem :: "dict \<Rightarrow> string \<Rightarrow> error + pyval" where
  "getitem d k = (case map_of d k of None \<Rightarrow> Inl KeyError | Some v \<Rightarrow> Inr v)"

text \<open>Truth value of an object in an \<open>if\<close>, and the test \<open>x != 1\<close> (\<open>True == 1\<close> in Python).\<close>

fun truthy :: "pyval \<Rightarrow> bool" where
  "truthy (PyInt n) = (n \<noteq> 0)"
| "truthy (PyFloat x) = (x \<noteq> 0)"
| "truthy (PyBool b) = b"
| "truthy (PyStr s) = (s \<noteq> [])"

fun ne_one :: "pyval \<Rightarrow> bool" where
  "ne_one (PyInt n) = (n \<noteq> 1)"
| "ne_one (PyFloat x) = (x \<noteq> 1)"
| "ne_one (PyBool b) = (\<not> b)"
| "ne_one (PyStr s) = True"

text \<open>\<open>str(n)\<close> for an integer.\<close>

definition digit_char :: "nat \<Rightarrow> char" where
  "digit_char n = ''0123456789'' ! n"

fun str_nat :: "nat \<Rightarrow> string" where
  "str_nat n = (if n < 10 then [digit_char n] else str_nat (n div 10) @ [digit_char (n mod 10)])"

declare str_nat.simps [simp del]

definition str_int :: "int \<Rightarrow> string" where
  "str_int i = (if i < 0 then CHR ''-'' # str_nat (nat (- i)) else str_nat (nat i))"

text \<open>\<open>s.replace('.', '', 1)\<close> and \<open>s.isdigit()\<close> on ASCII strings.\<close>

fun replace_first_dot :: "string \<Rightarrow> string" where
  "replace_first_dot [] = []"
| "replace_first_dot (c # cs) = (if c = CHR ''.'' then cs else c # replace_first_dot cs)"

definition isdigit :: "string \<Rightarrow> bool" where
  "isdigit s = (s \<noteq> [] \<and> list_all (\<lambda>c. c \<in> set ''0123456789'') s)"

text \<open>
  The test \<open>str(v).replace('.', '', 1).isdigit()\<close> of the constructor. \<open>str\<close> of a float
  is its shortest \<open>repr\<close>: plain positional digits with one point for 0 and for
  \<open>1e-4 \<le> x < 1e16\<close>, a leading minus sign for a negative value, and exponent notation
  (with the letter \<open>e\<close>) outside that range; only the first form passes the test.
\<close>

fun is_multiplicable :: "pyval \<Rightarrow> bool" where
  "is_multiplicable (PyInt n) = isdigit (replace_first_dot (str_int n))"
| "is_multiplicable (PyFloat x) = (x = 0 \<or> (1 / 10000 \<le> x \<and> x < 10 ^ 16))"
| "is_multiplicable (PyBool b) = isdigit (replace_first_dot (if b then ''True'' else ''False''))"
| "is_multiplicable (PyStr s) = isdigit (replace_first_dot s)"

text \<open>
  \<open>v * f\<close>: a boolean operand counts as the integer 0 or 1, a string times an integer
  is repetition, a string times a float or a string is a \<open>TypeError\<close>.
\<close>

fun bool_as_int :: "pyval \<Rightarrow> pyval" where
  "bool_as_int (PyBool b) = PyInt (if b then 1 else 0)"
| "bool_as_int v = v"

fun mul_values :: "pyval \<Rightarrow> pyval \<Rightarrow> error + pyval" where
  "mul_values (PyInt a) (PyInt b) = Inr (PyInt (a * b))"
| "mul_values (PyInt a) (PyFloat y) = Inr (PyFloat (of_int a * y))"
| "mul_values (PyFloat x) (PyInt b) = Inr (PyFloat (x * of_int b))"
| "mul_values (PyFloat x) (PyFloat y) = Inr (PyFloat (x * y))"
| "mul_values (PyStr s) (PyInt b) = Inr (PyStr (concat (replicate (nat b) s)))"
| "mul_values (PyInt a) (PyStr s) = Inr (PyStr (concat (replicate (nat a) s)))"
| "mul_values v w = Inl TypeError"

definition py_mul :: "pyval \<Rightarrow> pyval \<Rightarrow> error + pyval" where
  "py_mul v f = mul_values (bool_as_int v) (bool_as_int f)"

text \<open>\<open>s.upper()\<close> on ASCII, and the substring test \<open>sub in s\<close>.\<close>

definition upper_char :: "char \<Rightarrow> char" where
  "upper_char c =
     (case map_of (zip ''abcdefghijklmnopqrstuvwxyz'' ''ABCDEFGHIJKLMNOPQRSTUVWXYZ'') c of
        None \<Rightarrow> c | Some u \<Rightarrow> u)"

definition upper :: "string \<Rightarrow> string" where
  "upper s = map upper_char s"

fun starts_with :: "string \<Rightarrow> string \<Rightarrow> bool" where
  "starts_with [] s = True"
| "starts_with (c # cs) [] = False"
| "starts_with (c # cs) (x # xs) = (c = x \<and> starts_with cs xs)"

fun py_in :: "string \<Rightarrow> string \<Rightarrow> bool" where
  "py_in sub [] = (sub = [])"
| "py_in sub (x # xs) = (starts_with sub (x # xs) \<or> py_in sub xs)"

section \<open>The trainer and its constructor\<close>

text \<open>
  The loaded arrays: \<open>self.data\<close> always holds the six entries that
  \<open>__load_data_into_dict\<close> writes, so it is a record of six arrays, each a list of
  samples of an unspecified type \<open>'img\<close>. The keys that contain \<open>'images'\<close> are
  \<open>train_images\<close>, \<open>val_images\<close> and \<open>test_images\<close>.
\<close>

record 'img dataset =
  train_images :: "'img list"
  train_masks :: "'img list"
  val_images :: "'img list"
  val_masks :: "'img list"
  test_images :: "'img list"
  test_masks :: "'img list"

datatype network = UNet "int list" int nat

text \<open>
  The attributes of a \<open>Trainer\<close> that the modelled methods read or write. \<open>data\<close>,
  \<open>train_steps\<close> and \<open>valid_steps\<close> do not exist before \<open>load_data\<close>: they are \<open>None\<close>
  until then. Callbacks, optimizer, metrics and the log directory are left out.
\<close>

record 'img trainer =
  model :: "network option"
  mlflow :: bool
  input_shape :: "nat list"
  image_size :: int
  batch_size :: int
  feature_channels :: "int list"
  model_dir :: string
  augument :: dict
  augument_mask :: dict
  preprocessing_parameters :: dict
  data :: "'img dataset option"
  train_steps :: "nat option"
  valid_steps :: "nat option"

definition default_augument :: dict where
  "default_augument =
     [(''rotation_range'', PyInt 30),
      (''zoom_range'', PyFloat (1 / 10)),
      (''width_shift_range'', PyFloat (1 / 10)),
      (''height_shift_range'', PyFloat (1 / 10)),
      (''fill_mode'', PyStr ''constant''),
      (''cval'', PyFloat 0),
      (''shear_range'', PyFloat (2 / 10)),
      (''horizontal_flip'', PyBool True),
      (''vertical_flip'', PyBool True)]"

definition default_augument_mask :: dict where
  "default_augument_mask =
     [(''rotation_range'', PyInt 30),
      (''zoom_range'', PyFloat (1 / 10)),
      (''width_shift_range'', PyFloat (1 / 10)),
      (''height_shift_range'', PyFloat (1 / 10)),
      (''fill_mode'', PyStr ''constant''),
      (''cval'', PyFloat 0),
      (''shear_range'', PyFloat (2 / 10)),
      (''horizontal_flip'', PyBool True),
      (''vertical_flip'', PyBool True)]"

definition default_preprocessing_parameters :: dict where
  "default_preprocessing_parameters =
     [(''augumentation'', PyBool False),
      (''augumentation_factor'', PyInt 1),
      (''normalization'', PyBool True),
      (''histogram_equalization'', PyBool False),
      (''histogram_cutoff_percentage'', PyFloat (2 / 100)),
      (''remove_vignette_algorithm'', PyBool False),
      (''add_border'', PyBool False),
      (''border_width'', PyInt 20),
      (''per_channel_normalization'', PyBool False),
      (''gaussian_blur'', PyBool False),
      (''gaussian_blur_radius'', PyInt 2),
      (''zca_whitening'', PyBool False),
      (''connected_components'', PyBool False)]"

text \<open>The two override loops of \<open>__init__\<close>.\<close>

definition override_preprocessing :: "dict \<Rightarrow> dict \<Rightarrow> dict" where
  "override_preprocessing preprocessing_params p =
     fold (\<lambda>kv p. AList.update (fst kv) (snd kv) p) preprocessing_params p"

definition override_augument :: "dict \<Rightarrow> dict \<times> dict \<Rightarrow> dict \<times> dict" where
  "override_augument augumentation_parameters am =
     fold (\<lambda>kv am. (AList.update (fst kv) (snd kv) (fst am), AList.update (fst kv) (snd kv) (snd am)))
       augumentation_parameters am"

text \<open>
  The loop \<open>for key in self.augument.keys()\<close>: the test reads \<open>self.augument[key]\<close>, then
  both dictionaries are multiplied in place, the image one first.
\<close>

fun scale_loop :: "pyval \<Rightarrow> string list \<Rightarrow> dict \<times> dict \<Rightarrow> error + dict \<times> dict" where
  "scale_loop aug_factor [] am = Inr am"
| "scale_loop aug_factor (key # keys) am =
     bind_err (getitem (fst am) key) (\<lambda>v.
       if is_multiplicable v then
         bind_err (py_mul v aug_factor) (\<lambda>v'.
         bind_err (getitem (snd am) key) (\<lambda>w.
         bind_err (py_mul w aug_factor) (\<lambda>w'.
           scale_loop aug_factor keys
             (AList.update key v' (fst am), AList.update key w' (snd am)))))
       else scale_loop aug_factor keys am)"

definition Trainer_init ::
  "int \<Rightarrow> int \<Rightarrow> int list \<Rightarrow> string \<Rightarrow> dict \<Rightarrow> dict \<Rightarrow> error + 'img trainer" where
  "Trainer_init batch_size' image_size' feature_channels' model_directory
       preprocessing_params augumentation_parameters =
     (let p = override_preprocessing preprocessing_params default_preprocessing_parameters;
          am = override_augument augumentation_parameters
                 (default_augument, default_augument_mask)
      in bind_err (getitem p ''augumentation_factor'') (\<lambda>aug_factor.
         bind_err (if ne_one aug_factor then scale_loop aug_factor (map fst (fst am)) am
                   else Inr am) (\<lambda>am'.
           Inr \<lparr>model = None, mlflow = False, input_shape = [1],
                image_size = image_size', batch_size = batch_size',
                feature_channels = feature_channels', model_dir = model_directory,
                augument = fst am', augument_mask = snd am',
                preprocessing_parameters = p,
                data = None, train_steps = None, valid_steps = None\<rparr>)))"

section \<open>\<open>load_prep_from_settings_string\<close>\<close>

definition set_flag :: "string \<Rightarrow> string \<Rightarrow> string \<Rightarrow> dict \<Rightarrow> dict" where
  "set_flag keyword settings key p =
     (if py_in keyword settings then AList.update key (PyBool True) p else p)"

definition load_prep_from_settings_string :: "string \<Rightarrow> 'img trainer \<Rightarrow> 'img trainer" where
  "load_prep_from_settings_string settings t =
     (let settings = upper settings;
          p = preprocessing_parameters t;
          p = set_flag ''AUG'' settings ''augumentation'' p;
          p = set_flag ''HEQ'' settings ''histogram_equalization'' p;
          p = set_flag ''PCN'' settings ''per_channel_normalization'' p;
          p = set_flag ''CC'' settings ''connected_components'' p;
          p = set_flag ''ZCA'' settings ''zca_whitening'' p;
          p = set_flag ''GAUS'' settings ''gaussian_blur'' p
      in t\<lparr>preprocessing_parameters := p\<rparr>)"

section \<open>Preprocessing and data loading\<close>

text \<open>
  The functions of the modules \<open>utils\<close> and \<open>preprocessing\<close> and of Keras'
  \<open>ImageDataGenerator\<close> that the pipeline calls are not part of \<open>train.py\<close>: they are
  parameters of the model. \<open>prep_connected_components_on_batch\<close> includes the cast
  \<open>np.array(x, dtype='f')\<close> of its argument; \<open>gen_fit\<close> is the construction of
  \<open>ImageDataGenerator(featurewise_center=True, zca_whitening=True)\<close> followed by
  \<open>fit(x, seed=133)\<close>; \<open>np_shape\<close> is the attribute \<open>shape\<close> of an array.
\<close>

record ('img, 'mean, 'gen) ext =
  utils_apply_gaussian_blur :: "'img list \<Rightarrow> pyval \<Rightarrow> 'img list"
  utils_apply_histogram_equalization :: "'img list \<Rightarrow> pyval \<Rightarrow> 'img list"
  prep_connected_components_on_batch :: "'img list \<Rightarrow> nat \<Rightarrow> 'img list"
  utils_norm_per_channel :: "'img list \<Rightarrow> 'mean option \<Rightarrow> 'img list \<times> 'mean"
  utils_normalize :: "'img list \<Rightarrow> 'img list \<Rightarrow> 'img list \<times> 'img list"
  gen_fit :: "'img list \<Rightarrow> 'gen"
  gen_standardize :: "'gen \<Rightarrow> 'img \<Rightarrow> 'img"
  np_shape :: "'img list \<Rightarrow> nat list"

definition get_data :: "'img trainer \<Rightarrow> error + 'img dataset" where
  "get_data t = (case data t of None \<Rightarrow> Inl AttributeError | Some ds \<Rightarrow> Inr ds)"

text \<open>The loop \<open>for key in self.data.keys(): if 'images' in key: ...\<close>.\<close>

definition on_images :: "('img list \<Rightarrow> 'img list) \<Rightarrow> 'img dataset \<Rightarrow> 'img dataset" where
  "on_images f ds =
     ds\<lparr>train_images := f (train_images ds), val_images := f (val_images ds),
        test_images := f (test_images ds)\<rparr>"

definition gaussian_blur_step ::
  "('img, 'mean, 'gen) ext \<Rightarrow> 'img trainer \<Rightarrow> error + 'img trainer" where
  "gaussian_blur_step E t =
     bind_err (getitem (preprocessing_parameters t) ''gaussian_blur'') (\<lambda>flag.
       if truthy flag then
         bind_err (get_data t) (\<lambda>ds.
         bind_err (getitem (preprocessing_parameters t) ''gaussian_blur_radius'') (\<lambda>radius.
           Inr (t\<lparr>data := Some (on_images (\<lambda>x. utils_apply_gaussian_blur E x radius) ds)\<rparr>)))
       else Inr t)"

definition histogram_equalization_step ::
  "('img, 'mean, 'gen) ext \<Rightarrow> 'img trainer \<Rightarrow> error + 'img trainer" where
  "histogram_equalization_step E t =
     bind_err (getitem (preprocessing_parameters t) ''histogram_equalization'') (\<lambda>flag.
       if truthy flag then
         bind_err (get_data t) (\<lambda>ds.
         bind_err (getitem (preprocessing_parameters t) ''histogram_cutoff_percentage'') (\<lambda>cutoff.
           Inr (t\<lparr>data := Some (on_images (\<lambda>x. utils_apply_histogram_equalization E x cutoff) ds)\<rparr>)))
       else Inr t)"

definition connected_components_step ::
  "('img, 'mean, 'gen) ext \<Rightarrow> 'img trainer \<Rightarrow> error + 'img trainer" where
  "connected_components_step E t =
     bind_err (getitem (preprocessing_parameters t) ''connected_components'') (\<lambda>flag.
       if truthy flag then
         bind_err (get_data t) (\<lambda>ds.
           let ds' = on_images (\<lambda>x. prep_connected_components_on_batch E x 5) ds
           in Inr (t\<lparr>data := Some ds', input_shape := np_shape E (train_images ds')\<rparr>))
       else Inr t)"

definition per_channel_normalization_step ::
  "('img, 'mean, 'gen) ext \<Rightarrow> 'img trainer \<Rightarrow> error + 'img trainer" where
  "per_channel_normalization_step E t =
     bind_err (getitem (preprocessing_parameters t) ''per_channel_normalization'') (\<lambda>flag.
       if truthy flag then
         bind_err (get_data t) (\<lambda>ds.
           let (train', mean) = utils_norm_per_channel E (train_images ds) None;
               (val', mean) = utils_norm_per_channel E (val_images ds) (Some mean);
               (test', mean) = utils_norm_per_channel E (test_images ds) (Some mean)
           in Inr (t\<lparr>data := Some (ds\<lparr>train_images := train', val_images := val',
                                      test_images := test'\<rparr>)\<rparr>))
       else Inr t)"

definition normalization_step ::
  "('img, 'mean, 'gen) ext \<Rightarrow> 'img trainer \<Rightarrow> error + 'img trainer" where
  "normalization_step E t =
     bind_err (getitem (preprocessing_parameters t) ''normalization'') (\<lambda>flag.
       if truthy flag then
         bind_err (get_data t) (\<lambda>ds.
           let (train_i, train_m) = utils_normalize E (train_images ds) (train_masks ds);
               (test_i, test_m) = utils_normalize E (test_images ds) (test_masks ds);
               (val_i, val_m) = utils_normalize E (val_images ds) (val_masks ds)
           in Inr (t\<lparr>data := Some \<lparr>train_images = train_i, train_masks = train_m,
                                    val_images = val_i, val_masks = val_m,
                                    test_images = test_i, test_masks = test_m\<rparr>\<rparr>))
       else Inr t)"

text \<open>
  The whitening loop runs over \<open>range(len(train_images))\<close>; the validation and test
  arrays are indexed by the same \<open>i\<close>, under the guards \<open>i < len(...)\<close>.
\<close>

fun zca_loop :: "('img \<Rightarrow> 'img) \<Rightarrow> nat list \<Rightarrow> 'img dataset \<Rightarrow> 'img dataset" where
  "zca_loop std [] ds = ds"
| "zca_loop std (i # is) ds =
     (let ds1 = ds\<lparr>train_images := (train_images ds)[i := std (train_images ds ! i)]\<rparr>;
          ds2 = (if i < length (val_images ds1)
                 then ds1\<lparr>val_images := (val_images ds1)[i := std (val_images ds1 ! i)]\<rparr>
                 else ds1);
          ds3 = (if i < length (test_images ds2)
                 then ds2\<lparr>test_images := (test_images ds2)[i := std (test_images ds2 ! i)]\<rparr>
                 else ds2)
      in zca_loop std is ds3)"

definition zca_whitening_step ::
  "('img, 'mean, 'gen) ext \<Rightarrow> 'img trainer \<Rightarrow> error + 'img trainer" where
  "zca_whitening_step E t =
     bind_err (getitem (preprocessing_parameters t) ''zca_whitening'') (\<lambda>flag.
       if truthy flag then
         bind_err (get_data t) (\<lambda>ds.
           let gen = gen_fit E (take 250 (train_images ds))
           in Inr (t\<lparr>data := Some (zca_loop (gen_standardize E gen)
                                      [0..<length (train_images ds)] ds)\<rparr>))
       else Inr t)"

definition apply_preprocessings ::
  "('img, 'mean, 'gen) ext \<Rightarrow> 'img trainer \<Rightarrow> error + 'img trainer" where
  "apply_preprocessings E t =
     bind_err (gaussian_blur_step E t) (\<lambda>t.
     bind_err (histogram_equalization_step E t) (\<lambda>t.
     bind_err (connected_components_step E t) (\<lambda>t.
     bind_err (per_channel_normalization_step E t) (\<lambda>t.
     bind_err (normalization_step E t) (\<lambda>t.
       zca_whitening_step E t)))))"

text \<open>
  \<open>__load_data_into_dict\<close>, with the six arrays read by \<open>np.load\<close> given:
  \<open>image_size\<close> becomes \<open>shape[2]\<close> of the test images.
\<close>

definition load_data_into_dict ::
  "('img, 'mean, 'gen) ext \<Rightarrow> 'img dataset \<Rightarrow> 'img trainer \<Rightarrow> error + 'img trainer" where
  "load_data_into_dict E loaded t =
     (let shp = np_shape E (test_images loaded)
      in if 2 < length shp
         then Inr (t\<lparr>data := Some loaded, image_size := int (shp ! 2)\<rparr>)
         else Inl IndexError)"

text \<open>
  \<open>len(it)\<close> of a Keras array iterator over \<open>n\<close> samples:
  \<open>(n + batch_size - 1) // batch_size\<close>; Python's \<open>len\<close> rejects a negative result.
  In \<open>load_data\<close> the construction and fitting of the generators and the zipped
  iterators themselves stay outside the model; the step counts are the lengths of the
  iterators over the training and the validation images.
\<close>

definition iterator_len :: "nat \<Rightarrow> int \<Rightarrow> error + nat" where
  "iterator_len n b =
     (if b = 0 then Inl ZeroDivisionError
      else let l = (int n + b - 1) div b
           in if l < 0 then Inl ValueError else Inr (nat l))"

definition load_data ::
  "('img, 'mean, 'gen) ext \<Rightarrow> 'img dataset \<Rightarrow> 'img trainer \<Rightarrow> error + 'img trainer" where
  "load_data E loaded t =
     bind_err (load_data_into_dict E loaded t) (\<lambda>t.
     bind_err (apply_preprocessings E t) (\<lambda>t.
     bind_err (getitem (preprocessing_parameters t) ''augumentation'') (\<lambda>flag.
       let t = (if \<not> truthy flag then t\<lparr>augument := [], augument_mask := []\<rparr> else t)
       in bind_err (get_data t) (\<lambda>ds.
          bind_err (iterator_len (length (train_images ds)) (batch_size t)) (\<lambda>steps.
            let t = t\<lparr>train_steps := Some steps\<rparr>
            in bind_err (iterator_len (length (val_images ds)) (batch_size t)) (\<lambda>vsteps.
                 Inr (t\<lparr>valid_steps := Some vsteps\<rparr>)))))))"

section \<open>\<open>build_model\<close> and \<open>save\<close>\<close>

definition build_model :: "'img trainer \<Rightarrow> error + 'img trainer" where
  "build_model t =
     (if input_shape t = [] then Inl IndexError
      else Inr (t\<lparr>model := Some (UNet (feature_channels t) (image_size t)
                                     (last (input_shape t)))\<rparr>))"

text \<open>
  The file system, as far as \<open>save\<close> touches it: the directories that exist below the
  working directory, each as the list of its path components, and the files written. A
  path is split at \<open>/\<close>; empty components and \<open>.\<close> are dropped, so \<open>./src/models/\<close> and
  \<open>src/models\<close> name the same directory, and the working directory \<open>[]\<close> always exists.
\<close>

record world =
  dirs :: "string list list"
  files :: "string list list"

fun split_slash :: "string \<Rightarrow> string \<Rightarrow> string list" where
  "split_slash cur [] = [cur]"
| "split_slash cur (c # cs) =
     (if c = CHR ''/'' then cur # split_slash [] cs else split_slash (cur @ [c]) cs)"

definition components :: "string \<Rightarrow> string list" where
  "components p = filter (\<lambda>c. c \<noteq> [] \<and> c \<noteq> ''.'') (split_slash [] p)"

definition dir_exists :: "world \<Rightarrow> string list \<Rightarrow> bool" where
  "dir_exists w cs = (cs = [] \<or> cs \<in> set (dirs w))"

text \<open>
  \<open>os.mkdir\<close> creates one directory: it raises \<open>FileExistsError\<close> when the path
  exists and \<open>FileNotFoundError\<close> when the parent does not.
\<close>

definition os_mkdir :: "world \<Rightarrow> string \<Rightarrow> error + world" where
  "os_mkdir w p =
     (let cs = components p
      in if dir_exists w cs then Inl FileExistsError
         else if \<not> dir_exists w (butlast cs) then Inl FileNotFoundError
         else Inr (w\<lparr>dirs := cs # dirs w\<rparr>))"

text \<open>
  \<open>self.model.save_weights(path)\<close>: an \<open>AttributeError\<close> while \<open>self.model\<close> is \<open>None\<close>,
  an \<open>OSError\<close> from the HDF5 writer when the directory of the path does not exist.
\<close>

definition save_weights :: "'img trainer \<Rightarrow> world \<Rightarrow> string \<Rightarrow> error + world" where
  "save_weights t w path =
     (case model t of
        None \<Rightarrow> Inl AttributeError
      | Some m \<Rightarrow>
          if dir_exists w (butlast (components path))
          then Inr (w\<lparr>files := components path # files w\<rparr>)
          else Inl OSError)"

definition weights_path :: "'img trainer \<Rightarrow> string \<Rightarrow> string" where
  "weights_path t timestamp =
     model_dir t @ ''UNet_model_'' @ str_int (image_size t) @ ''x'' @ str_int (image_size t)
       @ ''_'' @ timestamp @ ''.h5''"

text \<open>
  \<open>save\<close>, given the string that \<open>time.strftime\<close> returns. The bare \<open>except\<close> catches
  whatever \<open>save_weights\<close> raises; what \<open>os.mkdir\<close> raises inside the handler is not
  caught. The optional \<open>mlflow.log_param\<close> and the prints are left out.
\<close>

definition save :: "'img trainer \<Rightarrow> string \<Rightarrow> world \<Rightarrow> error + string \<times> world" where
  "save t timestamp w =
     (let path = weights_path t timestamp
      in case save_weights t w path of
           Inr w' \<Rightarrow> Inr (path, w')
         | Inl e \<Rightarrow>
             (case os_mkdir w (''./'' @ model_dir t) of
                Inl e' \<Rightarrow> Inl e'
              | Inr w' \<Rightarrow> Inr (path, w')))"

text \<open>
  ``Numeric (integer or decimal)'' as the specification words the scaling rule: the
  value is an integer or a float, and not a boolean or a string.
\<close>

fun is_numeric :: "pyval \<Rightarrow> bool" where
  "is_numeric (PyInt n) = True"
| "is_numeric (PyFloat x) = True"
| "is_numeric (PyBool b) = False"
| "is_numeric (PyStr s) = False"

text \<open>The state after \<open>Trainer()\<close> with every argument at its default.\<close>

definition default_trainer :: "'img trainer" where
  "default_trainer =
     \<lparr>model = None, mlflow = False, input_shape = [1], image_size = 256, batch_size = 8,
      feature_channels = [32, 64, 128, 256, 512], model_dir = ''src/models/'',
      augument = default_augument, augument_mask = default_augument_mask,
      preprocessing_parameters = default_preprocessing_parameters,
      data = None, train_steps = None, valid_steps = None\<rparr>"

text \<open>
  An instance of the external functions for evaluating examples: every transformation
  is the identity, and an array of \<open>n\<close> samples has shape \<open>(n, 256, 256, 3)\<close>.
\<close>

definition identity_ext :: "(nat, unit, unit) ext" where
  "identity_ext =
     \<lparr>utils_apply_gaussian_blur = (\<lambda>x radius. x),
      utils_apply_histogram_equalization = (\<lambda>x cutoff. x),
      prep_connected_components_on_batch = (\<lambda>x take. x),
      utils_norm_per_channel = (\<lambda>x mean. (x, ())),
      utils_normalize = (\<lambda>x y. (x, y)),
      gen_fit = (\<lambda>x. ()),
      gen_standardize = (\<lambda>gen x. x),
      np_shape = (\<lambda>x. [length x, 256, 256, 3])\<rparr>"

text \<open>
  The array that results from whitening the samples with index in \<open>[i, n)\<close>, for the
  statement of what the whitening loop computes.
\<close>

definition whiten_range :: "('img \<Rightarrow> 'img) \<Rightarrow> nat \<Rightarrow> nat \<Rightarrow> 'img list \<Rightarrow> 'img list" where
  "whiten_range std i n xs = map (\<lambda>j. if i \<le> j \<and> j < n then std (xs ! j) else xs ! j) [0..<length xs]"

text \<open>
  An option \<open>k\<close> whose value after the overrides is \<open>v\<close> is resolved in both
  configurations: to \<open>v * f\<close> when the factor \<open>f\<close> is not 1 and \<open>v\<close> passes the test of the
  scaling loop, to \<open>v\<close> otherwise.
\<close>

definition resolved_in_both :: "'img trainer \<Rightarrow> pyval \<Rightarrow> string \<Rightarrow> pyval \<Rightarrow> bool" where
  "resolved_in_both t f k v =
     (if ne_one f \<and> is_multiplicable v
      then (case py_mul v f of
              Inl e \<Rightarrow> False
            | Inr v' \<Rightarrow> map_of (augument t) k = Some v' \<and> map_of (augument_mask t) k = Some v')
      else map_of (augument t) k = Some v \<and> map_of (augument_mask t) k = Some v)"

section \<open>The evaluation loop\<close>

lemma ravel_both:
  "both_labels d r \<Longrightarrow> ravel (confusion_matrix d r) =
     [count_pixels (\<lambda>(t, p). \<not> t \<and> \<not> p) d r, count_pixels (\<lambda>(t, p). \<not> t \<and> p) d r,
      count_pixels (\<lambda>(t, p). t \<and> \<not> p) d r, count_pixels (\<lambda>(t, p). t \<and> p) d r]"
  by (simp add: both_labels_def ravel_def confusion_matrix_def unique_labels_def Let_def)

lemma ravel_single:
  "\<not> both_labels d r \<Longrightarrow> length (ravel (confusion_matrix d r)) \<le> 1"
  by (auto simp add: both_labels_def ravel_def confusion_matrix_def unique_labels_def Let_def)

lemma filter_four_way:
  fixes zs :: "(bool \<times> bool) list"
  shows "length (filter (\<lambda>(t, p). \<not> t \<and> \<not> p) zs) + length (filter (\<lambda>(t, p). \<not> t \<and> p) zs)
     + length (filter (\<lambda>(t, p). t \<and> \<not> p) zs) + length (filter (\<lambda>(t, p). t \<and> p) zs) = length zs"
  by (induction zs) auto

lemma count_pixels_partition:
  "count_pixels (\<lambda>(t, p). \<not> t \<and> \<not> p) d r + count_pixels (\<lambda>(t, p). \<not> t \<and> p) d r +
   count_pixels (\<lambda>(t, p). t \<and> \<not> p) d r + count_pixels (\<lambda>(t, p). t \<and> p) d r
     = min (length d) (length r)"
  using filter_four_way[of "zip d r"] by (simp add: count_pixels_def)

lemma ravel_one_class:
  assumes "d \<noteq> []" and "length d = length r" and "\<not> both_labels d r"
  shows "ravel (confusion_matrix d r) = [length d]"
proof -
  have zip_len: "length (zip d r) = length d" using assms(2) by simp
  show ?thesis
  proof (cases "True \<in> set (d @ r)")
    case True
    with assms(3) have nf: "False \<notin> set (d @ r)" by (auto simp add: both_labels_def)
    then have "\<forall>z\<in>set (zip d r). fst z \<and> snd z"
      by (metis (full_types) Un_iff set_append set_zip_leftD set_zip_rightD prod.collapse)
    then have "filter (\<lambda>(t, p). t = True \<and> p = True) (zip d r) = zip d r"
      by (intro filter_True) auto
    with True nf zip_len show ?thesis
      by (simp add: ravel_def confusion_matrix_def unique_labels_def count_pixels_def)
  next
    case False
    then have "\<forall>z\<in>set (zip d r). \<not> fst z \<and> \<not> snd z"
      by (metis (full_types) Un_iff set_append set_zip_leftD set_zip_rightD prod.collapse)
    then have f: "filter (\<lambda>(t, p). t = False \<and> p = False) (zip d r) = zip d r"
      by (intro filter_True) auto
    from assms(1) False have "False \<in> set (d @ r)"
      by (cases d) auto
    with False f zip_len show ?thesis
      by (simp add: ravel_def confusion_matrix_def unique_labels_def count_pixels_def)
  qed
qed

lemma or_sum_pos:
  assumes len: "length d = length r" and t: "True \<in> set (d @ r)"
  shows "logical_or_sum d r \<noteq> 0"
proof -
  from len t obtain i where i: "i < length d" "d ! i \<or> r ! i"
    by (auto simp: in_set_conv_nth)
  then have "(d ! i, r ! i) \<in> set (zip d r)" using len
    by (auto simp: set_zip)
  with i(2) have "filter (\<lambda>(x, y). x \<or> y) (zip d r) \<noteq> []"
    by (auto simp: filter_empty_conv)
  then show ?thesis by (simp add: logical_or_sum_def count_pixels_def)
qed

lemma loop_body_wf:
  assumes "well_formed s"
  shows "loop_body a s = Inr
     \<lparr>jacc_sum = float_add (jacc_sum a) (Fin (sample_jaccard s)),
      tn = tn a + sample_tn s, tp = tp a + sample_tp s,
      fp = fp a + sample_fp s, fn = fn a + sample_fn s,
      test_jacc_sum =
        float64_round (test_jacc_sum a + float64_round (jaccard_score (fst s) (snd s))),
      test_jacc_sum_exact = test_jacc_sum_exact a + jaccard_score (fst s) (snd s),
      test_jacc_above_thresh =
        test_jacc_above_thresh a
          + (if float64_round (13 / 20) \<le> test_jacc_sum a then 1 else 0)\<rparr>"
proof -
  obtain d r where s: "s = (d, r)" by (cases s)
  from assms s have len: "length d = length r" and both: "both_labels d r"
    by (simp_all add: well_formed_def)
  from both have "True \<in> set (d @ r)" by (simp add: both_labels_def)
  with len have u: "logical_or_sum d r \<noteq> 0" by (rule or_sum_pos)
  show ?thesis
    using len u
    by (simp add: s loop_body_def ravel_both[OF both] Let_def np_true_divide_def
        sample_jaccard_def sample_tn_def sample_tp_def sample_fp_def sample_fn_def)
qed

lemma loop_body_not_wf:
  assumes "\<not> well_formed s"
  shows "loop_body a s = Inl ValueError"
proof -
  obtain d r where s: "s = (d, r)" by (cases s)
  show ?thesis
  proof (cases "length d = length r")
    case False
    then show ?thesis by (simp add: s loop_body_def)
  next
    case True
    with assms s have "\<not> both_labels d r" by (simp add: well_formed_def)
    then have "length (ravel (confusion_matrix d r)) \<le> 1" by (rule ravel_single)
    then show ?thesis
      by (auto simp add: s loop_body_def Let_def split: list.splits)
  qed
qed

lemma metrics_loop_wf:
  "list_all well_formed ss \<Longrightarrow> metrics_loop a ss = Inr
     \<lparr>jacc_sum = float_add (jacc_sum a) (Fin (\<Sum>s\<leftarrow>ss. sample_jaccard s)),
      tn = tn a + (\<Sum>s\<leftarrow>ss. sample_tn s), tp = tp a + (\<Sum>s\<leftarrow>ss. sample_tp s),
      fp = fp a + (\<Sum>s\<leftarrow>ss. sample_fp s), fn = fn a + (\<Sum>s\<leftarrow>ss. sample_fn s),
      test_jacc_sum =
        float_sum (test_jacc_sum a) (map (\<lambda>s. jaccard_score (fst s) (snd s)) ss),
      test_jacc_sum_exact =
        test_jacc_sum_exact a + (\<Sum>s\<leftarrow>ss. jaccard_score (fst s) (snd s)),
      test_jacc_above_thresh = test_jacc_above_thresh a
         + count_above (test_jacc_sum a) (map (\<lambda>s. jaccard_score (fst s) (snd s)) ss)\<rparr>"
proof (induction ss arbitrary: a)
  case Nil
  then show ?case by (cases "jacc_sum a") simp_all
next
  case (Cons s ss)
  then show ?case
    by (cases "jacc_sum a") (simp_all add: loop_body_wf add.assoc)
qed

lemma metrics_loop_not_wf:
  "\<not> list_all well_formed ss \<Longrightarrow> metrics_loop a ss = Inl ValueError"
proof (induction ss arbitrary: a)
  case Nil
  then show ?case by simp
next
  case (Cons s ss)
  show ?case
  proof (cases "well_formed s")
    case True
    with Cons show ?thesis by (simp add: loop_body_wf)
  next
    case False
    then show ?thesis by (simp add: loop_body_not_wf)
  qed
qed

lemma metrics_loop_init:
  assumes "metrics_loop init_accum samples = Inr a"
  shows "list_all well_formed samples"
    and "a = \<lparr>jacc_sum = Fin (\<Sum>s\<leftarrow>samples. sample_jaccard s),
      tn = (\<Sum>s\<leftarrow>samples. sample_tn s), tp = (\<Sum>s\<leftarrow>samples. sample_tp s),
      fp = (\<Sum>s\<leftarrow>samples. sample_fp s), fn = (\<Sum>s\<leftarrow>samples. sample_fn s),
      test_jacc_sum = float_sum 0 (map (\<lambda>s. jaccard_score (fst s) (snd s)) samples),
      test_jacc_sum_exact = (\<Sum>s\<leftarrow>samples. jaccard_score (fst s) (snd s)),
      test_jacc_above_thresh =
        count_above 0 (map (\<lambda>s. jaccard_score (fst s) (snd s)) samples)\<rparr>"
proof -
  show wf: "list_all well_formed samples"
    using assms metrics_loop_not_wf[of samples init_accum] by auto
  show "a = \<lparr>jacc_sum = Fin (\<Sum>s\<leftarrow>samples. sample_jaccard s),
      tn = (\<Sum>s\<leftarrow>samples. sample_tn s), tp = (\<Sum>s\<leftarrow>samples. sample_tp s),
      fp = (\<Sum>s\<leftarrow>samples. sample_fp s), fn = (\<Sum>s\<leftarrow>samples. sample_fn s),
      test_jacc_sum = float_sum 0 (map (\<lambda>s. jaccard_score (fst s) (snd s)) samples),
      test_jacc_sum_exact = (\<Sum>s\<leftarrow>samples. jaccard_score (fst s) (snd s)),
      test_jacc_above_thresh =
        count_above 0 (map (\<lambda>s. jaccard_score (fst s) (snd s)) samples)\<rparr>"
    using metrics_loop_wf[OF wf, of init_accum] assms by (simp add: init_accum_def)
qed

lemma count_above_filter:
  "count_above s xs =
     length (filter (\<lambda>i. float64_round (13 / 20) \<le> float_sum s (take i xs)) [0..<length xs])"
proof (induction xs arbitrary: s)
  case Nil
  then show ?case by simp
next
  case (Cons x xs)
  have "[0..<length (x # xs)] = 0 # map Suc [0..<length xs]"
    by (simp add: upt_conv_Cons map_Suc_upt del: upt_Suc)
  then show ?case
    by (simp add: Cons.IH filter_map o_def del: upt_Suc)
qed

lemma test_model_Inr:
  assumes "test_model_additional_metrics samples = Inr m"
  obtains a where "metrics_loop init_accum samples = Inr a" and "samples \<noteq> []"
    and "m = final_metrics a (length samples)"
  using assms
  by (auto simp: test_model_additional_metrics_def split: sum.splits if_splits)

text \<open>When the method returns: there is a sample, and every sample is well formed.\<close>

lemma test_model_returns_iff:
  "(\<exists>m. test_model_additional_metrics samples = Inr m)
     \<longleftrightarrow> samples \<noteq> [] \<and> list_all well_formed samples"
proof
  assume "\<exists>m. test_model_additional_metrics samples = Inr m"
  then obtain m where "test_model_additional_metrics samples = Inr m" ..
  then obtain a where "metrics_loop init_accum samples = Inr a" and "samples \<noteq> []"
    by (rule test_model_Inr)
  then show "samples \<noteq> [] \<and> list_all well_formed samples"
    using metrics_loop_init(1) by blast
next
  assume "samples \<noteq> [] \<and> list_all well_formed samples"
  then show "\<exists>m. test_model_additional_metrics samples = Inr m"
    by (simp add: test_model_additional_metrics_def metrics_loop_wf)
qed

text \<open>
  What the method reports as \<open>isic_eval_score\<close>: the fraction of samples at which the
  \<open>float64\<close> sum of the scores of the samples before it is at least the literal 0.65.
\<close>

lemma isic_eval_score_eq:
  assumes "test_model_additional_metrics samples = Inr m"
  shows "isic_eval_score m =
     of_nat (length (filter (\<lambda>i. float64_round (13 / 20) \<le> running_sum samples i)
                        [0..<length samples]))
       / of_nat (length samples)"
proof -
  from assms obtain a where a: "metrics_loop init_accum samples = Inr a"
    and m: "m = final_metrics a (length samples)"
    by (rule test_model_Inr)
  have "test_jacc_above_thresh a = count_above 0 (map (\<lambda>s. jaccard_score (fst s) (snd s)) samples)"
    by (subst metrics_loop_init(2)[OF a]) simp
  also have "\<dots> = length (filter (\<lambda>i. float64_round (13 / 20) \<le> running_sum samples i)
                              [0..<length samples])"
    by (simp add: count_above_filter running_sum_def take_map)
  finally show ?thesis by (simp add: m final_metrics_def Let_def)
qed

text \<open>
  The rounding of the sum is visible in the count: the scores 0.3 and 0.35 add up to
  the \<open>float64\<close> just below 0.65, so a third sample is not counted, although
  \<open>3/10 + 7/20 = 13/20\<close>.
\<close>

lemma rounded_sum_below_threshold:
  "float64_round (float64_round (3 / 10) + float64_round (7 / 20)) < float64_round (13 / 20)
   \<and> float64_round (13 / 20) \<le> float64_round (0 + float64_round (13 / 20))"
  by code_simp

lemma isic_eval_score_rounded_sum:
  "map_sum id isic_eval_score
     (test_model_additional_metrics
        [(replicate 20 True, replicate 6 True @ replicate 14 False),
         (replicate 20 True, replicate 7 True @ replicate 13 False),
         (replicate 10 True @ replicate 10 False, replicate 10 True @ replicate 10 False)])
     = Inr 0"
  by code_simp

section \<open>Claims about the evaluation pass\<close>

text \<open>
  Claim C1. For a pass over at least one sample that reaches the end of the loop with
  accumulators \<open>a\<close>, if \<open>tp + fn\<close>, \<open>tn + fp\<close> and \<open>tp + fp\<close> are not zero and every
  sample's union is not zero, then the method returns, the accumulators are the sums of
  the per-sample confusion counts, and sensitivity is \<open>tp / (tp + fn)\<close>, specificity
  \<open>tn / (tn + fp)\<close>, accuracy \<open>(tp + tn) / (tp + tn + fp + fn)\<close>, Dice
  \<open>2 tp / (2 tp + fp + fn)\<close>, precision \<open>tp / (tp + fp)\<close>, the mean Jaccard index the
  sum of the per-sample intersection over union divided by the number of samples, the
  library Jaccard score the sum of the per-sample library scores divided by the number
  of samples, and the returned vector is accuracy, library Jaccard score, precision,
  sensitivity, specificity. Floats are exact rationals here.
\<close>

theorem final_metrics_formulas:
  assumes "samples \<noteq> []"
    and "metrics_loop init_accum samples = Inr a"
    and "tp a + fn a \<noteq> 0" and "tn a + fp a \<noteq> 0" and "tp a + fp a \<noteq> 0"
    and "\<forall>s\<in>set samples. logical_or_sum (fst s) (snd s) \<noteq> 0"
  shows "\<exists>m. test_model_additional_metrics samples = Inr m
     \<and> tp a = (\<Sum>s\<leftarrow>samples. sample_tp s) \<and> tn a = (\<Sum>s\<leftarrow>samples. sample_tn s)
     \<and> fp a = (\<Sum>s\<leftarrow>samples. sample_fp s) \<and> fn a = (\<Sum>s\<leftarrow>samples. sample_fn s)
     \<and> test_sensitivity m = Fin (of_nat (tp a) / of_nat (tp a + fn a))
     \<and> test_specifitivity m = Fin (of_nat (tn a) / of_nat (tn a + fp a))
     \<and> test_accuracy m = Fin (of_nat (tp a + tn a) / of_nat (tp a + tn a + fp a + fn a))
     \<and> test_dicecoef m = Fin (of_nat (2 * tp a) / of_nat (2 * tp a + fp a + fn a))
     \<and> test_precision m = Fin (of_nat (tp a) / of_nat (tp a + fp a))
     \<and> jaccard_index m = Fin ((\<Sum>s\<leftarrow>samples. sample_jaccard s) / of_nat (length samples))
     \<and> test_jaccard_score m =
         Fin ((\<Sum>s\<leftarrow>samples. jaccard_score (fst s) (snd s)) / of_nat (length samples))
     \<and> returned m = [test_accuracy m, test_jaccard_score m, test_precision m,
                      test_sensitivity m, test_specifitivity m]"
proof -
  note a = metrics_loop_init(2)[OF assms(2)]
  have run: "test_model_additional_metrics samples = Inr (final_metrics a (length samples))"
    using assms(1,2) by (simp add: test_model_additional_metrics_def)
  have sums: "tp a = (\<Sum>s\<leftarrow>samples. sample_tp s)" "tn a = (\<Sum>s\<leftarrow>samples. sample_tn s)"
    "fp a = (\<Sum>s\<leftarrow>samples. sample_fp s)" "fn a = (\<Sum>s\<leftarrow>samples. sample_fn s)"
    "jacc_sum a = Fin (\<Sum>s\<leftarrow>samples. sample_jaccard s)"
    "test_jacc_sum_exact a = (\<Sum>s\<leftarrow>samples. jaccard_score (fst s) (snd s))"
    by (subst a, simp)+
  have fields: "test_sensitivity (final_metrics a (length samples)) = Fin (of_nat (tp a) / of_nat (tp a + fn a))"
    "test_specifitivity (final_metrics a (length samples)) = Fin (of_nat (tn a) / of_nat (tn a + fp a))"
    "test_accuracy (final_metrics a (length samples)) = Fin (of_nat (tp a + tn a) / of_nat (tp a + tn a + fp a + fn a))"
    "test_dicecoef (final_metrics a (length samples)) = Fin (of_nat (2 * tp a) / of_nat (2 * tp a + fp a + fn a))"
    "test_precision (final_metrics a (length samples)) = Fin (of_nat (tp a) / of_nat (tp a + fp a))"
    using assms(3,4,5) by (auto simp add: final_metrics_def Let_def np_true_divide_def)
  have j: "jaccard_index (final_metrics a (length samples))
      = Fin ((\<Sum>s\<leftarrow>samples. sample_jaccard s) / of_nat (length samples))"
    "test_jaccard_score (final_metrics a (length samples)) =
         Fin ((\<Sum>s\<leftarrow>samples. jaccard_score (fst s) (snd s)) / of_nat (length samples))"
    by (simp_all add: final_metrics_def Let_def sums(5,6))
  have r: "returned (final_metrics a (length samples)) =
     [test_accuracy (final_metrics a (length samples)), test_jaccard_score (final_metrics a (length samples)),
      test_precision (final_metrics a (length samples)), test_sensitivity (final_metrics a (length samples)),
      test_specifitivity (final_metrics a (length samples))]"
    by (simp add: final_metrics_def Let_def)
  show ?thesis
    using run sums(1-4) fields j r by blast
qed

theorem final_metrics_formulas_witness:
  "metrics_loop init_accum [([True, False], [True, False]), ([True, True, False, False], [True, False, True, False])]
     = Inr \<lparr>jacc_sum = Fin (4 / 3), tn = 2, tp = 2, fp = 1, fn = 1,
            test_jacc_sum = float64_round (1 + float64_round (1 / 3)),
            test_jacc_sum_exact = 4 / 3, test_jacc_above_thresh = 1\<rparr>
   \<and> (\<exists>m. test_model_additional_metrics
          [([True, False], [True, False]), ([True, True, False, False], [True, False, True, False])] = Inr m
        \<and> test_sensitivity m = Fin (2 / 3) \<and> test_specifitivity m = Fin (2 / 3)
        \<and> test_accuracy m = Fin (2 / 3) \<and> test_dicecoef m = Fin (2 / 3)
        \<and> test_precision m = Fin (2 / 3) \<and> jaccard_index m = Fin (2 / 3)
        \<and> test_jaccard_score m = Fin (2 / 3)
        \<and> returned m = [Fin (2 / 3), Fin (2 / 3), Fin (2 / 3), Fin (2 / 3), Fin (2 / 3)])"
proof -
  let ?S = "[([True, False], [True, False]), ([True, True, False, False], [True, False, True, False])]"
  let ?A = "\<lparr>jacc_sum = Fin (4 / 3), tn = 2, tp = 2, fp = 1, fn = 1,
            test_jacc_sum = float64_round (1 + float64_round (1 / 3)),
            test_jacc_sum_exact = 4 / 3, test_jacc_above_thresh = 1\<rparr>"
  have h1: "?S \<noteq> []" by simp
  have h2: "metrics_loop init_accum ?S = Inr ?A" by code_simp
  have h3: "tp ?A + fn ?A \<noteq> 0" "tn ?A + fp ?A \<noteq> 0" "tp ?A + fp ?A \<noteq> 0" by simp_all
  have h4: "\<forall>s\<in>set ?S. logical_or_sum (fst s) (snd s) \<noteq> 0"
    by (simp add: logical_or_sum_def count_pixels_def)
  have js: "(\<Sum>s\<leftarrow>?S. sample_jaccard s) = 4 / 3" by code_simp
  have ls: "(\<Sum>s\<leftarrow>?S. jaccard_score (fst s) (snd s)) = 4 / 3" by code_simp
  from final_metrics_formulas[OF h1 h2 h3 h4] obtain m where
    m: "test_model_additional_metrics ?S = Inr m"
      "test_sensitivity m = Fin (of_nat (tp ?A) / of_nat (tp ?A + fn ?A))"
      "test_specifitivity m = Fin (of_nat (tn ?A) / of_nat (tn ?A + fp ?A))"
      "test_accuracy m = Fin (of_nat (tp ?A + tn ?A) / of_nat (tp ?A + tn ?A + fp ?A + fn ?A))"
      "test_dicecoef m = Fin (of_nat (2 * tp ?A) / of_nat (2 * tp ?A + fp ?A + fn ?A))"
      "test_precision m = Fin (of_nat (tp ?A) / of_nat (tp ?A + fp ?A))"
      "jaccard_index m = Fin ((\<Sum>s\<leftarrow>?S. sample_jaccard s) / of_nat (length ?S))"
      "test_jaccard_score m = Fin ((\<Sum>s\<leftarrow>?S. jaccard_score (fst s) (snd s)) / of_nat (length ?S))"
      "returned m = [test_accuracy m, test_jaccard_score m, test_precision m,
                      test_sensitivity m, test_specifitivity m]"
    by blast
  have c: "test_sensitivity m = Fin (2 / 3)" "test_specifitivity m = Fin (2 / 3)"
    "test_accuracy m = Fin (2 / 3)" "test_dicecoef m = Fin (2 / 3)"
    "test_precision m = Fin (2 / 3)"
    using m(2-6) by simp_all
  have "jaccard_index m = Fin (4 / 3 / of_nat (length ?S))"
    using m(7) by (simp only: js)
  then have j1: "jaccard_index m = Fin (2 / 3)" by simp
  have "test_jaccard_score m = Fin (4 / 3 / of_nat (length ?S))"
    using m(8) by (simp only: ls)
  then have j2: "test_jaccard_score m = Fin (2 / 3)" by simp
  from m(1,9) h2 c j1 j2 show ?thesis by auto
qed


text \<open>
  Claim C4. At the end of a pass over samples whose masks all have \<open>P\<close> pixels, the
  accumulated counts satisfy \<open>tp + fp + fn + tn = P * N\<close>.
\<close>

theorem confusion_counts_total:
  assumes "metrics_loop init_accum samples = Inr a"
    and "\<forall>s\<in>set samples. length (fst s) = P \<and> length (snd s) = P"
  shows "tp a + fp a + fn a + tn a = P * length samples"
proof -
  note a = metrics_loop_init(2)[OF assms(1)]
  have per: "sample_tn s + sample_fp s + sample_fn s + sample_tp s = P" if "s \<in> set samples" for s
    using that assms(2) count_pixels_partition[of "fst s" "snd s"]
    by (simp add: sample_tn_def sample_fp_def sample_fn_def sample_tp_def)
  have "(\<Sum>s\<leftarrow>samples. sample_tn s + sample_fp s + sample_fn s + sample_tp s) = (\<Sum>s\<leftarrow>samples. P)"
    using per by (intro arg_cong[where f = sum_list] map_cong) auto
  then have "(\<Sum>s\<leftarrow>samples. sample_tn s) + (\<Sum>s\<leftarrow>samples. sample_fp s)
      + (\<Sum>s\<leftarrow>samples. sample_fn s) + (\<Sum>s\<leftarrow>samples. sample_tp s) = P * length samples"
    by (simp add: sum_list_addf sum_list_triv mult.commute)
  moreover have "tp a = (\<Sum>s\<leftarrow>samples. sample_tp s)" "tn a = (\<Sum>s\<leftarrow>samples. sample_tn s)"
    "fp a = (\<Sum>s\<leftarrow>samples. sample_fp s)" "fn a = (\<Sum>s\<leftarrow>samples. sample_fn s)"
    by (subst a, simp)+
  ultimately show ?thesis by simp
qed

theorem confusion_counts_total_witness:
  "metrics_loop init_accum [([True, False], [True, False]), ([True, True], [False, False])]
     = Inr \<lparr>jacc_sum = Fin 1, tn = 1, tp = 1, fp = 0, fn = 2,
            test_jacc_sum = 1, test_jacc_sum_exact = 1, test_jacc_above_thresh = 1\<rparr>
   \<and> (1::nat) + 0 + 2 + 1 = 2 * 2"
proof -
  let ?S = "[([True, False], [True, False]), ([True, True], [False, False])]"
  let ?A = "\<lparr>jacc_sum = Fin 1, tn = 1, tp = 1, fp = 0, fn = 2,
            test_jacc_sum = 1, test_jacc_sum_exact = 1, test_jacc_above_thresh = 1\<rparr>"
  have h1: "metrics_loop init_accum ?S = Inr ?A" by code_simp
  have h2: "\<forall>s\<in>set ?S. length (fst s) = 2 \<and> length (snd s) = 2" by simp
  from confusion_counts_total[OF h1 h2] h1 show ?thesis by simp
qed

text \<open>
  Claim C10. The method returns only if every sample has a positive and a negative
  pixel between its two masks; a sample without both makes the pass raise
  \<open>ValueError\<close>, and when its two masks, of one length and not empty, are entirely one
  class the ravel of the confusion matrix is a single cell, which the four-way unpack
  rejects.
\<close>

theorem single_class_sample_fails:
  "(test_model_additional_metrics samples = Inr m
      \<longrightarrow> (\<forall>s\<in>set samples. both_labels (fst s) (snd s)))
   \<and> (s \<in> set samples' \<and> \<not> both_labels (fst s) (snd s)
      \<longrightarrow> test_model_additional_metrics samples' = Inl ValueError)
   \<and> (d \<noteq> [] \<and> length d = length r \<and> \<not> both_labels d r
      \<longrightarrow> ravel (confusion_matrix d r) = [length d] \<and> loop_body a (d, r) = Inl ValueError)"
proof (intro conjI impI)
  assume "test_model_additional_metrics samples = Inr m"
  then obtain a where "metrics_loop init_accum samples = Inr a"
    by (rule test_model_Inr)
  then have "list_all well_formed samples" by (rule metrics_loop_init(1))
  then show "\<forall>s\<in>set samples. both_labels (fst s) (snd s)"
    by (simp add: list_all_iff well_formed_def)
next
  assume "s \<in> set samples' \<and> \<not> both_labels (fst s) (snd s)"
  then have "\<not> list_all well_formed samples'"
    by (auto simp: list_all_iff well_formed_def)
  then have "metrics_loop init_accum samples' = Inl ValueError"
    by (rule metrics_loop_not_wf)
  then show "test_model_additional_metrics samples' = Inl ValueError"
    by (simp add: test_model_additional_metrics_def)
next
  assume h: "d \<noteq> [] \<and> length d = length r \<and> \<not> both_labels d r"
  then show "ravel (confusion_matrix d r) = [length d]"
    by (simp add: ravel_one_class)
next
  assume h: "d \<noteq> [] \<and> length d = length r \<and> \<not> both_labels d r"
  then have "\<not> well_formed (d, r)" by (simp add: well_formed_def)
  then show "loop_body a (d, r) = Inl ValueError" by (rule loop_body_not_wf)
qed

theorem single_class_sample_fails_witness:
  "test_model_additional_metrics [([True, False], [True, False])]
     = Inr \<lparr>jaccard_index = Fin 1, test_sensitivity = Fin 1, test_specifitivity = Fin 1,
            test_accuracy = Fin 1, test_precision = Fin 1, test_jaccard_score = Fin 1,
            test_dicecoef = Fin 1, isic_eval_score = 0,
            returned = [Fin 1, Fin 1, Fin 1, Fin 1, Fin 1]\<rparr>
   \<and> both_labels [True, False] [True, False]
   \<and> \<not> both_labels [True] [True]
   \<and> test_model_additional_metrics [([True, False], [True, False]), ([True], [True])]
       = Inl ValueError
   \<and> ravel (confusion_matrix [True, True] [True, True]) = [2]
   \<and> loop_body init_accum ([True, True], [True, True]) = Inl ValueError"
proof -
  let ?S = "[([True, False], [True, False])]"
  let ?M = "\<lparr>jaccard_index = Fin 1, test_sensitivity = Fin 1, test_specifitivity = Fin 1,
            test_accuracy = Fin 1, test_precision = Fin 1, test_jaccard_score = Fin 1,
            test_dicecoef = Fin 1, isic_eval_score = 0,
            returned = [Fin 1, Fin 1, Fin 1, Fin 1, Fin 1]\<rparr>"
  let ?s = "([True], [True])"
  let ?S' = "[([True, False], [True, False]), ([True], [True])]"
  have h1: "test_model_additional_metrics ?S = Inr ?M" by code_simp
  have h2: "?s \<in> set ?S' \<and> \<not> both_labels (fst ?s) (snd ?s)"
    by (simp add: both_labels_def)
  have h3: "[True, True] \<noteq> [] \<and> length [True, True] = length [True, True]
      \<and> \<not> both_labels [True, True] [True, True]"
    by (simp add: both_labels_def)
  note T = single_class_sample_fails[of ?S ?M ?s ?S' "[True, True]" "[True, True]" init_accum]
  from T h1 have "\<forall>s\<in>set ?S. both_labels (fst s) (snd s)" by blast
  then have c1: "both_labels [True, False] [True, False]" by simp
  from T h2 have c2: "test_model_additional_metrics ?S' = Inl ValueError" by blast
  from T h3 have c3: "ravel (confusion_matrix [True, True] [True, True]) = [length [True, True]]"
    and c4: "loop_body init_accum ([True, True], [True, True]) = Inl ValueError" by blast+
  from h2 have c5: "\<not> both_labels [True] [True]" by simp
  from c3 have c3': "ravel (confusion_matrix [True, True] [True, True]) = [2]" by simp
  from h1 c1 c5 c2 c3' c4 show ?thesis by blast
qed

section \<open>The constructor\<close>

lemma default_augument_same: "default_augument_mask = default_augument"
  by (simp add: default_augument_def default_augument_mask_def)

lemma distinct_default_augument: "distinct (map fst default_augument)"
  by (simp add: default_augument_def)

lemma override_augument_same:
  "fst am = snd am \<Longrightarrow>
     fst (override_augument ap am) = snd (override_augument ap am)"
  unfolding override_augument_def
  by (induction ap arbitrary: am) simp_all

lemma override_augument_distinct:
  "distinct (map fst (fst am)) \<Longrightarrow> distinct (map fst (fst (override_augument ap am)))"
  unfolding override_augument_def
  by (induction ap arbitrary: am) (simp_all add: distinct_update)

lemma scale_loop_same:
  assumes "scale_loop f keys (a, a) = Inr am'" and "distinct keys"
  shows "fst am' = snd am'
     \<and> (\<forall>k. k \<notin> set keys \<longrightarrow> map_of (fst am') k = map_of a k)
     \<and> (\<forall>k v. k \<in> set keys \<longrightarrow> map_of a k = Some v \<longrightarrow>
          (is_multiplicable v \<longrightarrow> (\<exists>v'. py_mul v f = Inr v' \<and> map_of (fst am') k = Some v'))
        \<and> (\<not> is_multiplicable v \<longrightarrow> map_of (fst am') k = Some v))"
  using assms
proof (induction keys arbitrary: a)
  case Nil
  then show ?case by auto
next
  case (Cons key keys)
  from Cons.prems(2) have dk: "distinct keys" and nk: "key \<notin> set keys" by simp_all
  from Cons.prems(1) obtain v where v: "map_of a key = Some v"
    by (auto simp: bind_err_def getitem_def split: option.splits)
  show ?case
  proof (cases "is_multiplicable v")
    case False
    with Cons.prems(1) v have "scale_loop f keys (a, a) = Inr am'"
      by (simp add: bind_err_def getitem_def)
    from Cons.IH[OF this dk] v False nk show ?thesis
      by auto
  next
    case True
    with Cons.prems(1) v obtain v' where v': "py_mul v f = Inr v'"
      and rec: "scale_loop f keys (AList.update key v' a, AList.update key v' a) = Inr am'"
      by (auto simp: bind_err_def getitem_def split: sum.splits)
    note IH = Cons.IH[OF rec dk]
    from IH have e: "fst am' = snd am'" by blast
    from IH have other: "\<forall>k. k \<notin> set keys \<longrightarrow> map_of (fst am') k = map_of (AList.update key v' a) k"
      by blast
    with nk have "map_of (fst am') key = map_of (AList.update key v' a) key" by blast
    then have kk: "map_of (fst am') key = Some v'"
      by (simp add: update_conv')
    have out: "map_of (fst am') k = map_of a k" if "k \<notin> set (key # keys)" for k
    proof -
      from that other have "map_of (fst am') k = map_of (AList.update key v' a) k" by simp
      with that show ?thesis by (simp add: update_conv')
    qed
    have inn: "(is_multiplicable w \<longrightarrow> (\<exists>w'. py_mul w f = Inr w' \<and> map_of (fst am') k = Some w'))
        \<and> (\<not> is_multiplicable w \<longrightarrow> map_of (fst am') k = Some w)"
      if "k \<in> set (key # keys)" and "map_of a k = Some w" for k w
    proof (cases "k = key")
      case True
      with that v have "w = v" by simp
      with True \<open>is_multiplicable v\<close> v' kk show ?thesis by simp
    next
      case False
      with that have "k \<in> set keys" and "map_of (AList.update key v' a) k = Some w"
        by (simp_all add: update_conv')
      with IH show ?thesis by blast
    qed
    from e out inn show ?thesis by blast
  qed
qed

lemma Trainer_init_Inr:
  assumes "Trainer_init bs isz fc md pp ap = Inr t"
  obtains f am' where
    "preprocessing_parameters t = override_preprocessing pp default_preprocessing_parameters"
    and "getitem (preprocessing_parameters t) ''augumentation_factor'' = Inr f"
    and "(if ne_one f
          then scale_loop f
                 (map fst (fst (override_augument ap (default_augument, default_augument_mask))))
                 (override_augument ap (default_augument, default_augument_mask))
          else Inr (override_augument ap (default_augument, default_augument_mask))) = Inr am'"
    and "augument t = fst am'" and "augument_mask t = snd am'"
    and "model t = None" and "model_dir t = md" and "image_size t = isz" and "batch_size t = bs"
proof -
  let ?p = "override_preprocessing pp default_preprocessing_parameters"
  let ?am = "override_augument ap (default_augument, default_augument_mask)"
  from assms obtain f where f: "getitem ?p ''augumentation_factor'' = Inr f"
    by (auto simp: Trainer_init_def Let_def bind_err_def split: sum.splits)
  with assms obtain am' where am': "(if ne_one f then scale_loop f (map fst (fst ?am)) ?am
          else Inr ?am) = Inr am'"
    by (auto simp: Trainer_init_def Let_def bind_err_def split: sum.splits)
  from assms f am' have t: "t = \<lparr>model = None, mlflow = False, input_shape = [1],
                image_size = isz, batch_size = bs,
                feature_channels = fc, model_dir = md,
                augument = fst am', augument_mask = snd am',
                preprocessing_parameters = ?p,
                data = None, train_steps = None, valid_steps = None\<rparr>"
    by (auto simp: Trainer_init_def Let_def bind_err_def split: if_splits)
  show ?thesis
    by (rule that[of f am']) (use f am' in \<open>simp_all add: t\<close>)
qed

lemma overridden_same:
  "override_augument ap (default_augument, default_augument_mask)
     = (fst (override_augument ap (default_augument, default_augument_mask)),
        fst (override_augument ap (default_augument, default_augument_mask)))"
  using override_augument_same[of "(default_augument, default_augument_mask)" ap]
  by (simp add: default_augument_same prod_eq_iff)

lemma str_nat_digits: "str_nat n \<noteq> [] \<and> list_all (\<lambda>c. c \<in> set ''0123456789'') (str_nat n)"
proof (induction n rule: str_nat.induct)
  case (1 n)
  have dc: "digit_char k \<in> set ''0123456789''" if "k < 10" for k
  proof -
    from that have "k \<in> {0,1,2,3,4,5,6,7,8,9}" by auto
    then show ?thesis by (auto simp: digit_char_def)
  qed
  show ?case
  proof (cases "n < 10")
    case True
    then show ?thesis using dc[of n] by (subst (1 2) str_nat.simps) simp
  next
    case False
    with 1 have IH: "str_nat (n div 10) \<noteq> [] \<and> list_all (\<lambda>c. c \<in> set ''0123456789'') (str_nat (n div 10))"
      by simp
    have "n mod 10 < 10" by simp
    from dc[OF this] IH False show ?thesis
      by (subst (1 2) str_nat.simps) simp
  qed
qed

lemma replace_first_dot_digits:
  "list_all (\<lambda>c. c \<in> set ''0123456789'') s \<Longrightarrow> replace_first_dot s = s"
  by (induction s) auto

lemma is_multiplicable_int: "is_multiplicable (PyInt n) \<longleftrightarrow> 0 \<le> n"
proof (cases "0 \<le> n")
  case True
  then show ?thesis
    using str_nat_digits[of "nat n"]
    by (simp add: str_int_def isdigit_def replace_first_dot_digits)
next
  case False
  then have "replace_first_dot (str_int n) = CHR ''-'' # replace_first_dot (str_nat (nat (- n)))"
    by (simp add: str_int_def)
  with False show ?thesis by (simp add: isdigit_def)
qed

lemma is_multiplicable_bool: "\<not> is_multiplicable (PyBool b)"
  by (simp add: isdigit_def)

lemma override_augument_lookup:
  "map_of (fst (override_augument ap am)) k =
     (case map_of (rev ap) k of None \<Rightarrow> map_of (fst am) k | Some v \<Rightarrow> Some v)"
  unfolding override_augument_def
  by (induction ap arbitrary: am) (auto simp: update_conv' map_add_def split: option.splits)

section \<open>Claims about the constructor\<close>

text \<open>
  Claim C3 fails on the code. With factor 2 and the override \<open>cval = -1.0\<close>, a numeric
  value, the resolved \<open>cval\<close> is still \<open>-1.0\<close> in both configurations and not \<open>-2.0\<close>,
  while every other numeric option is doubled: the loop's test for a number reads the
  string form of the value, and the minus sign fails it.
\<close>

theorem negative_value_not_scaled:
  "map_sum id augument
     (Trainer_init 8 256 [32, 64, 128, 256, 512] ''src/models/''
        [(''augumentation_factor'', PyInt 2)] [(''cval'', PyFloat (- 1))]
      :: error + unit trainer)
   = Inr [(''rotation_range'', PyInt 60),
          (''zoom_range'', PyFloat (1 / 5)),
          (''width_shift_range'', PyFloat (1 / 5)),
          (''height_shift_range'', PyFloat (1 / 5)),
          (''fill_mode'', PyStr ''constant''),
          (''cval'', PyFloat (- 1)),
          (''shear_range'', PyFloat (2 / 5)),
          (''horizontal_flip'', PyBool True),
          (''vertical_flip'', PyBool True)]
   \<and> map_sum id augument_mask
     (Trainer_init 8 256 [32, 64, 128, 256, 512] ''src/models/''
        [(''augumentation_factor'', PyInt 2)] [(''cval'', PyFloat (- 1))]
      :: error + unit trainer)
   = Inr [(''rotation_range'', PyInt 60),
          (''zoom_range'', PyFloat (1 / 5)),
          (''width_shift_range'', PyFloat (1 / 5)),
          (''height_shift_range'', PyFloat (1 / 5)),
          (''fill_mode'', PyStr ''constant''),
          (''cval'', PyFloat (- 1)),
          (''shear_range'', PyFloat (2 / 5)),
          (''horizontal_flip'', PyBool True),
          (''vertical_flip'', PyBool True)]
   \<and> is_numeric (PyFloat (- 1))
   \<and> py_mul (PyFloat (- 1)) (PyInt 2) = Inr (PyFloat (- 2))"
  by code_simp

text \<open>
  Claim C9. After every construction the image and the mask augmentation configuration
  are equal. Every override (the last value given for its key) is in both, and so is
  every default that is not overridden; each of them is multiplied by the factor in
  both when the factor is not 1 and the value passes the test of the scaling loop, and
  is the value itself in both otherwise. No other key is in either.
\<close>

theorem augument_configs_equal:
  assumes "Trainer_init bs isz fc md pp ap = Inr t"
  shows "augument t = augument_mask t
     \<and> (\<exists>f. getitem (preprocessing_parameters t) ''augumentation_factor'' = Inr f
          \<and> (\<forall>k v. map_of (rev ap) k = Some v \<longrightarrow> resolved_in_both t f k v)
          \<and> (\<forall>k v. map_of (rev ap) k = None \<and> map_of default_augument k = Some v
                 \<longrightarrow> resolved_in_both t f k v)
          \<and> (\<forall>k. map_of (rev ap) k = None \<and> map_of default_augument k = None
                 \<longrightarrow> map_of (augument t) k = None \<and> map_of (augument_mask t) k = None))"
proof -
  let ?am = "override_augument ap (default_augument, default_augument_mask)"
  let ?merged = "fst ?am"
  from assms obtain f am' where
    f: "getitem (preprocessing_parameters t) ''augumentation_factor'' = Inr f"
    and am': "(if ne_one f then scale_loop f (map fst ?merged) ?am else Inr ?am) = Inr am'"
    and t: "augument t = fst am'" "augument_mask t = snd am'"
    by (rule Trainer_init_Inr)
  have d: "distinct (map fst ?merged)"
    by (rule override_augument_distinct) (simp add: distinct_default_augument)
  have look: "map_of ?merged k =
      (case map_of (rev ap) k of None \<Rightarrow> map_of default_augument k | Some v \<Rightarrow> Some v)" for k
    by (simp add: override_augument_lookup split: option.splits)
  have keys: "k \<in> set (map fst ?merged)" if "map_of ?merged k = Some v" for k v
    using that by (metis map_of_SomeD fst_conv image_eqI set_map)
  have nokeys: "k \<notin> set (map fst ?merged)" if "map_of ?merged k = None" for k
    using that by (simp add: map_of_eq_None_iff)
  have fin: "fst am' = snd am'
      \<and> (\<forall>k. map_of ?merged k = None \<longrightarrow> map_of (fst am') k = None)
      \<and> (\<forall>k v. map_of ?merged k = Some v \<longrightarrow>
            (if ne_one f \<and> is_multiplicable v
             then \<exists>v'. py_mul v f = Inr v' \<and> map_of (fst am') k = Some v'
             else map_of (fst am') k = Some v))"
  proof (cases "ne_one f")
    case True
    with am' have run: "scale_loop f (map fst ?merged) (?merged, ?merged) = Inr am'"
      using overridden_same[of ap] by simp
    note L = scale_loop_same[OF run d]
    from L have e: "fst am' = snd am'" by blast
    have n: "map_of (fst am') k = None" if "map_of ?merged k = None" for k
    proof -
      from L nokeys[OF that] have "map_of (fst am') k = map_of ?merged k" by blast
      with that show ?thesis by simp
    qed
    have sm: "if ne_one f \<and> is_multiplicable v
             then \<exists>v'. py_mul v f = Inr v' \<and> map_of (fst am') k = Some v'
             else map_of (fst am') k = Some v" if "map_of ?merged k = Some v" for k v
    proof -
      from L keys[OF that] that have
        "(is_multiplicable v \<longrightarrow> (\<exists>v'. py_mul v f = Inr v' \<and> map_of (fst am') k = Some v'))
         \<and> (\<not> is_multiplicable v \<longrightarrow> map_of (fst am') k = Some v)"
        by blast
      with True show ?thesis by simp
    qed
    from e n sm show ?thesis by blast
  next
    case False
    with am' have "am' = ?am" by simp
    with overridden_same[of ap] have "fst am' = ?merged" "snd am' = ?merged"
      by (metis fst_conv, metis snd_conv)
    with False show ?thesis by simp
  qed
  from fin have e: "fst am' = snd am'" by blast
  with t have eq: "augument t = augument_mask t" by simp
  have some: "resolved_in_both t f k v" if "map_of ?merged k = Some v" for k v
  proof -
    from fin that have r: "if ne_one f \<and> is_multiplicable v
             then \<exists>v'. py_mul v f = Inr v' \<and> map_of (fst am') k = Some v'
             else map_of (fst am') k = Some v"
      by blast
    show ?thesis
    proof (cases "ne_one f \<and> is_multiplicable v")
      case True
      with r obtain v' where "py_mul v f = Inr v'" "map_of (fst am') k = Some v'" by auto
      with True e t show ?thesis by (simp add: resolved_in_both_def)
    next
      case False
      with r have "map_of (fst am') k = Some v" by auto
      with False e t show ?thesis by (auto simp add: resolved_in_both_def)
    qed
  qed
  have none: "map_of (augument t) k = None \<and> map_of (augument_mask t) k = None"
    if "map_of ?merged k = None" for k
  proof -
    from fin that have "map_of (fst am') k = None" by blast
    with e t show ?thesis by simp
  qed
  have A: "\<forall>k v. map_of (rev ap) k = Some v \<longrightarrow> resolved_in_both t f k v"
    using some by (simp add: look)
  have B: "\<forall>k v. map_of (rev ap) k = None \<and> map_of default_augument k = Some v
                 \<longrightarrow> resolved_in_both t f k v"
    using some by (simp add: look)
  have C: "\<forall>k. map_of (rev ap) k = None \<and> map_of default_augument k = None
                 \<longrightarrow> map_of (augument t) k = None \<and> map_of (augument_mask t) k = None"
    using none by (simp add: look)
  from eq f A B C show ?thesis by blast
qed

theorem augument_configs_equal_witness:
  "\<exists>t :: unit trainer.
     Trainer_init 8 256 [32, 64, 128, 256, 512] ''src/models/''
       [(''augumentation_factor'', PyFloat (3 / 2))]
       [(''rotation_range'', PyInt 10), (''brightness'', PyStr ''none'')] = Inr t
     \<and> augument t = augument_mask t
     \<and> map_of (augument t) ''rotation_range'' = Some (PyFloat 15)
     \<and> map_of (augument_mask t) ''rotation_range'' = Some (PyFloat 15)
     \<and> map_of (augument t) ''brightness'' = Some (PyStr ''none'')
     \<and> map_of (augument_mask t) ''brightness'' = Some (PyStr ''none'')
     \<and> map_of (augument t) ''zoom_range'' = Some (PyFloat (3 / 20))
     \<and> map_of (augument_mask t) ''zoom_range'' = Some (PyFloat (3 / 20))
     \<and> map_of (augument t) ''contrast'' = None
     \<and> map_of (augument_mask t) ''contrast'' = None"
proof -
  let ?ap = "[(''rotation_range'', PyInt 10), (''brightness'', PyStr ''none'')]"
  let ?r = "Trainer_init 8 256 [32, 64, 128, 256, 512] ''src/models/''
       [(''augumentation_factor'', PyFloat (3 / 2))] ?ap :: error + unit trainer"
  let ?t = "projr ?r"
  have "\<not> isl ?r" by code_simp
  then have h: "?r = Inr ?t" by simp
  have g: "getitem (preprocessing_parameters ?t) ''augumentation_factor'' = Inr (PyFloat (3 / 2))"
    by code_simp
  from augument_configs_equal[OF h] g have
    eq: "augument ?t = augument_mask ?t"
    and A: "\<forall>k v. map_of (rev ?ap) k = Some v \<longrightarrow> resolved_in_both ?t (PyFloat (3 / 2)) k v"
    and B: "\<forall>k v. map_of (rev ?ap) k = None \<and> map_of default_augument k = Some v
                 \<longrightarrow> resolved_in_both ?t (PyFloat (3 / 2)) k v"
    and C: "\<forall>k. map_of (rev ?ap) k = None \<and> map_of default_augument k = None
                 \<longrightarrow> map_of (augument ?t) k = None \<and> map_of (augument_mask ?t) k = None"
    by auto
  have k1: "map_of (rev ?ap) ''rotation_range'' = Some (PyInt 10)" by simp
  have k2: "map_of (rev ?ap) ''brightness'' = Some (PyStr ''none'')" by simp
  have k3: "map_of (rev ?ap) ''zoom_range'' = None \<and>
      map_of default_augument ''zoom_range'' = Some (PyFloat (1 / 10))"
    by (simp add: default_augument_def)
  have k4: "map_of (rev ?ap) ''contrast'' = None \<and> map_of default_augument ''contrast'' = None"
    by (simp add: default_augument_def)
  have m1: "is_multiplicable (PyInt 10)" by code_simp
  have m2: "\<not> is_multiplicable (PyStr ''none'')" by (simp add: isdigit_def)
  have m3: "is_multiplicable (PyFloat (1 / 10))" by simp
  have p1: "py_mul (PyInt 10) (PyFloat (3 / 2)) = Inr (PyFloat 15)" by (simp add: py_mul_def)
  have p3: "py_mul (PyFloat (1 / 10)) (PyFloat (3 / 2)) = Inr (PyFloat (3 / 20))"
    by (simp add: py_mul_def)
  from A k1 have "resolved_in_both ?t (PyFloat (3 / 2)) ''rotation_range'' (PyInt 10)" by blast
  then have r1: "map_of (augument ?t) ''rotation_range'' = Some (PyFloat 15)"
    "map_of (augument_mask ?t) ''rotation_range'' = Some (PyFloat 15)"
    unfolding resolved_in_both_def using m1 p1 by simp_all
  from A k2 have "resolved_in_both ?t (PyFloat (3 / 2)) ''brightness'' (PyStr ''none'')" by blast
  then have r2: "map_of (augument ?t) ''brightness'' = Some (PyStr ''none'')"
    "map_of (augument_mask ?t) ''brightness'' = Some (PyStr ''none'')"
    unfolding resolved_in_both_def using m2 by simp_all
  from B k3 have "resolved_in_both ?t (PyFloat (3 / 2)) ''zoom_range'' (PyFloat (1 / 10))" by blast
  then have r3: "map_of (augument ?t) ''zoom_range'' = Some (PyFloat (3 / 20))"
    "map_of (augument_mask ?t) ''zoom_range'' = Some (PyFloat (3 / 20))"
    unfolding resolved_in_both_def using m3 p3 by simp_all
  from C k4 have r4: "map_of (augument ?t) ''contrast'' = None"
    "map_of (augument_mask ?t) ''contrast'' = None"
    by blast+
  from h eq r1 r2 r3 r4 show ?thesis by blast
qed

section \<open>The settings string\<close>

lemma upper_char_idem: "upper_char (upper_char c) = upper_char c"
  by (simp add: upper_char_def)

lemma upper_idem: "upper (upper s) = upper s"
  by (simp add: upper_def upper_char_idem)

lemma map_of_set_flag:
  "map_of (set_flag keyword settings key p) k =
     (if k = key \<and> py_in keyword settings then Some (PyBool True) else map_of p k)"
  by (simp add: set_flag_def update_conv')

text \<open>
  Claim C5. \<open>load_prep_from_settings_string\<close> sets a flag exactly when its keyword
  occurs in the upper-cased settings string, each flag on its own, and leaves every
  other parameter as it was; upper-casing the input first changes nothing. For
  \<open>"aug_heq_cc"\<close> the flags \<open>augumentation\<close>, \<open>histogram_equalization\<close> and
  \<open>connected_components\<close> become \<open>True\<close>, and on the default parameters all others keep
  their defaults.
\<close>

theorem settings_string_flags:
  "map_of (preprocessing_parameters (load_prep_from_settings_string settings t)) k =
     (if k = ''gaussian_blur'' \<and> py_in ''GAUS'' (upper settings)
        \<or> k = ''zca_whitening'' \<and> py_in ''ZCA'' (upper settings)
        \<or> k = ''connected_components'' \<and> py_in ''CC'' (upper settings)
        \<or> k = ''per_channel_normalization'' \<and> py_in ''PCN'' (upper settings)
        \<or> k = ''histogram_equalization'' \<and> py_in ''HEQ'' (upper settings)
        \<or> k = ''augumentation'' \<and> py_in ''AUG'' (upper settings)
      then Some (PyBool True) else map_of (preprocessing_parameters t) k)
   \<and> load_prep_from_settings_string (upper settings) t = load_prep_from_settings_string settings t
   \<and> preprocessing_parameters (load_prep_from_settings_string ''aug_heq_cc'' t)
       = AList.update ''connected_components'' (PyBool True)
           (AList.update ''histogram_equalization'' (PyBool True)
              (AList.update ''augumentation'' (PyBool True) (preprocessing_parameters t)))
   \<and> preprocessing_parameters (load_prep_from_settings_string ''aug_heq_cc''
         (t\<lparr>preprocessing_parameters := default_preprocessing_parameters\<rparr>))
       = [(''augumentation'', PyBool True),
          (''augumentation_factor'', PyInt 1),
          (''normalization'', PyBool True),
          (''histogram_equalization'', PyBool True),
          (''histogram_cutoff_percentage'', PyFloat (2 / 100)),
          (''remove_vignette_algorithm'', PyBool False),
          (''add_border'', PyBool False),
          (''border_width'', PyInt 20),
          (''per_channel_normalization'', PyBool False),
          (''gaussian_blur'', PyBool False),
          (''gaussian_blur_radius'', PyInt 2),
          (''zca_whitening'', PyBool False),
          (''connected_components'', PyBool True)]"
proof (intro conjI)
  show "map_of (preprocessing_parameters (load_prep_from_settings_string settings t)) k =
     (if k = ''gaussian_blur'' \<and> py_in ''GAUS'' (upper settings)
        \<or> k = ''zca_whitening'' \<and> py_in ''ZCA'' (upper settings)
        \<or> k = ''connected_components'' \<and> py_in ''CC'' (upper settings)
        \<or> k = ''per_channel_normalization'' \<and> py_in ''PCN'' (upper settings)
        \<or> k = ''histogram_equalization'' \<and> py_in ''HEQ'' (upper settings)
        \<or> k = ''augumentation'' \<and> py_in ''AUG'' (upper settings)
      then Some (PyBool True) else map_of (preprocessing_parameters t) k)"
    by (simp add: load_prep_from_settings_string_def Let_def map_of_set_flag)
  show "load_prep_from_settings_string (upper settings) t = load_prep_from_settings_string settings t"
    by (simp add: load_prep_from_settings_string_def upper_idem)
  have u: "upper ''aug_heq_cc'' = ''AUG_HEQ_CC''" by code_simp
  have f: "py_in ''AUG'' ''AUG_HEQ_CC''" "py_in ''HEQ'' ''AUG_HEQ_CC''"
    "\<not> py_in ''PCN'' ''AUG_HEQ_CC''" "py_in ''CC'' ''AUG_HEQ_CC''"
    "\<not> py_in ''ZCA'' ''AUG_HEQ_CC''" "\<not> py_in ''GAUS'' ''AUG_HEQ_CC''"
    by code_simp+
  show g: "preprocessing_parameters (load_prep_from_settings_string ''aug_heq_cc'' t)
       = AList.update ''connected_components'' (PyBool True)
           (AList.update ''histogram_equalization'' (PyBool True)
              (AList.update ''augumentation'' (PyBool True) (preprocessing_parameters t)))" for t :: "'a trainer"
    by (simp only: load_prep_from_settings_string_def Let_def u set_flag_def f if_True if_False)
      simp
  show "preprocessing_parameters (load_prep_from_settings_string ''aug_heq_cc''
         (t\<lparr>preprocessing_parameters := default_preprocessing_parameters\<rparr>))
       = [(''augumentation'', PyBool True),
          (''augumentation_factor'', PyInt 1),
          (''normalization'', PyBool True),
          (''histogram_equalization'', PyBool True),
          (''histogram_cutoff_percentage'', PyFloat (2 / 100)),
          (''remove_vignette_algorithm'', PyBool False),
          (''add_border'', PyBool False),
          (''border_width'', PyInt 20),
          (''per_channel_normalization'', PyBool False),
          (''gaussian_blur'', PyBool False),
          (''gaussian_blur_radius'', PyInt 2),
          (''zca_whitening'', PyBool False),
          (''connected_components'', PyBool True)]"
    by (simp add: g default_preprocessing_parameters_def)
qed

section \<open>Preprocessing, data loading and saving\<close>

lemma ceil_div_pos:
  fixes a b :: int
  assumes "0 < b"
  shows "(a + b - 1) div b = \<lceil>(of_int a :: rat) / of_int b\<rceil>"
proof -
  define q where "q = (a + b - 1) div b"
  define r where "r = (a + b - 1) mod b"
  have eq: "a + b - 1 = q * b + r" by (simp add: q_def r_def)
  have r: "0 \<le> r" "r < b" using assms by (simp_all add: r_def)
  have "(q - 1) * b < a" using eq r by (simp add: algebra_simps)
  then have "(of_int ((q - 1) * b) :: rat) < of_int a" by (simp only: of_int_less_iff)
  then have lo: "(of_int q :: rat) - 1 < of_int a / of_int b"
    using assms by (simp add: pos_less_divide_eq)
  have "a \<le> q * b" using eq r by (simp add: algebra_simps)
  then have "(of_int a :: rat) \<le> of_int (q * b)" by (simp only: of_int_le_iff)
  then have hi: "(of_int a :: rat) / of_int b \<le> of_int q"
    using assms by (simp add: pos_divide_le_eq)
  from lo hi have "\<lceil>(of_int a :: rat) / of_int b\<rceil> = q" by (rule ceiling_unique)
  then show ?thesis by (simp add: q_def)
qed

lemma iterator_len_pos:
  assumes "0 < b"
  shows "iterator_len n b = Inr (nat \<lceil>(of_nat n :: rat) / of_int b\<rceil>)"
proof -
  have c: "(int n + b - 1) div b = \<lceil>(of_int (int n) :: rat) / of_int b\<rceil>"
    using assms by (rule ceil_div_pos)
  have "0 \<le> (of_nat n :: rat) / of_int b" using assms by simp
  then have "0 \<le> \<lceil>(of_nat n :: rat) / of_int b\<rceil>" by (simp add: ceiling_le_iff less_le_trans[of "-1" 0] order_less_le_trans[of "-1" 0])
  with c assms show ?thesis
    by (simp add: iterator_len_def Let_def)
qed

text \<open>Each step leaves everything but the arrays and the recorded input shape alone.\<close>

lemma gaussian_blur_step_frame:
  "gaussian_blur_step E t = Inr t' \<Longrightarrow> t' = t\<lparr>data := data t', input_shape := input_shape t'\<rparr>"
  by (auto simp: gaussian_blur_step_def bind_err_def get_data_def
      split: sum.splits if_splits option.splits)

lemma histogram_equalization_step_frame:
  "histogram_equalization_step E t = Inr t' \<Longrightarrow> t' = t\<lparr>data := data t', input_shape := input_shape t'\<rparr>"
  by (auto simp: histogram_equalization_step_def bind_err_def get_data_def
      split: sum.splits if_splits option.splits)

lemma connected_components_step_frame:
  "connected_components_step E t = Inr t' \<Longrightarrow> t' = t\<lparr>data := data t', input_shape := input_shape t'\<rparr>"
  by (auto simp: connected_components_step_def bind_err_def get_data_def Let_def
      split: sum.splits if_splits option.splits)

lemma per_channel_normalization_step_frame:
  "per_channel_normalization_step E t = Inr t' \<Longrightarrow> t' = t\<lparr>data := data t', input_shape := input_shape t'\<rparr>"
  by (auto simp: per_channel_normalization_step_def bind_err_def get_data_def Let_def
      split: sum.splits if_splits option.splits prod.splits)

lemma normalization_step_frame:
  "normalization_step E t = Inr t' \<Longrightarrow> t' = t\<lparr>data := data t', input_shape := input_shape t'\<rparr>"
  by (auto simp: normalization_step_def bind_err_def get_data_def Let_def
      split: sum.splits if_splits option.splits prod.splits)

lemma zca_whitening_step_frame:
  "zca_whitening_step E t = Inr t' \<Longrightarrow> t' = t\<lparr>data := data t', input_shape := input_shape t'\<rparr>"
  by (auto simp: zca_whitening_step_def bind_err_def get_data_def Let_def
      split: sum.splits if_splits option.splits)

lemma frame_trans:
  "t1 = t\<lparr>data := d1, input_shape := s1\<rparr> \<Longrightarrow> t2 = t1\<lparr>data := data t2, input_shape := input_shape t2\<rparr>
     \<Longrightarrow> t2 = t\<lparr>data := data t2, input_shape := input_shape t2\<rparr>"
  by simp

lemma apply_preprocessings_frame:
  assumes "apply_preprocessings E t = Inr t'"
  shows "t' = t\<lparr>data := data t', input_shape := input_shape t'\<rparr>"
proof -
  from assms obtain t1 t2 t3 t4 t5 where
    s: "gaussian_blur_step E t = Inr t1" "histogram_equalization_step E t1 = Inr t2"
       "connected_components_step E t2 = Inr t3" "per_channel_normalization_step E t3 = Inr t4"
       "normalization_step E t4 = Inr t5" "zca_whitening_step E t5 = Inr t'"
    by (auto simp: apply_preprocessings_def bind_err_def split: sum.splits)
  note f = gaussian_blur_step_frame[OF s(1)] histogram_equalization_step_frame[OF s(2)]
    connected_components_step_frame[OF s(3)] per_channel_normalization_step_frame[OF s(4)]
    normalization_step_frame[OF s(5)] zca_whitening_step_frame[OF s(6)]
  from f(1) f(2) have "t2 = t\<lparr>data := data t2, input_shape := input_shape t2\<rparr>" by (rule frame_trans)
  from this f(3) have "t3 = t\<lparr>data := data t3, input_shape := input_shape t3\<rparr>" by (rule frame_trans)
  from this f(4) have "t4 = t\<lparr>data := data t4, input_shape := input_shape t4\<rparr>" by (rule frame_trans)
  from this f(5) have "t5 = t\<lparr>data := data t5, input_shape := input_shape t5\<rparr>" by (rule frame_trans)
  from this f(6) show ?thesis by (rule frame_trans)
qed

text \<open>What the whitening loop computes, for arrays of any lengths.\<close>

lemma whiten_range_empty: "n \<le> i \<Longrightarrow> whiten_range std i n xs = xs"
  by (auto simp: whiten_range_def intro!: nth_equalityI)

lemma whiten_range_step_upd:
  assumes "i < n"
  shows "whiten_range std (Suc i) n (xs[i := std (xs ! i)]) = whiten_range std i n xs"
proof (rule nth_equalityI)
  show "length (whiten_range std (Suc i) n (xs[i := std (xs ! i)]))
      = length (whiten_range std i n xs)"
    by (simp add: whiten_range_def)
next
  fix j
  assume "j < length (whiten_range std (Suc i) n (xs[i := std (xs ! i)]))"
  then have j: "j < length xs" by (simp add: whiten_range_def)
  show "whiten_range std (Suc i) n (xs[i := std (xs ! i)]) ! j = whiten_range std i n xs ! j"
    using j assms by (cases "j = i") (auto simp: whiten_range_def nth_list_update)
qed

lemma whiten_range_step_skip:
  "\<not> i < length xs \<Longrightarrow> whiten_range std (Suc i) n xs = whiten_range std i n xs"
  by (auto simp: whiten_range_def intro!: nth_equalityI)

lemma zca_loop_range:
  "zca_loop std [i..<n] ds =
     ds\<lparr>train_images := whiten_range std i n (train_images ds),
        val_images := whiten_range std i n (val_images ds),
        test_images := whiten_range std i n (test_images ds)\<rparr>"
proof (induction "n - i" arbitrary: i ds)
  case 0
  then show ?case by (simp add: whiten_range_empty)
next
  case (Suc k)
  then have lt: "i < n" and k: "k = n - Suc i" by simp_all
  from lt have u: "[i..<n] = i # [Suc i..<n]" by (simp add: upt_conv_Cons)
  show ?case
    unfolding u zca_loop.simps Let_def
    by (subst Suc.hyps(1)[OF k])
      (simp add: whiten_range_step_upd[OF lt] whiten_range_step_skip)
qed

lemma whiten_range_whole:
  "whiten_range std 0 n xs = map std (take n xs) @ drop n xs"
  by (auto simp: whiten_range_def nth_append intro!: nth_equalityI)

lemma zca_loop_result:
  "zca_loop std [0..<length (train_images ds)] ds =
     ds\<lparr>train_images := map std (train_images ds),
        val_images := map std (take (length (train_images ds)) (val_images ds))
                        @ drop (length (train_images ds)) (val_images ds),
        test_images := map std (take (length (train_images ds)) (test_images ds))
                        @ drop (length (train_images ds)) (test_images ds)\<rparr>"
  by (simp add: zca_loop_range whiten_range_whole)

text \<open>A step whose flag is false returns the trainer as it is.\<close>

lemma steps_off:
  assumes "\<not> truthy flag"
  shows "getitem (preprocessing_parameters t) ''gaussian_blur'' = Inr flag
           \<Longrightarrow> gaussian_blur_step E t = Inr t"
    and "getitem (preprocessing_parameters t) ''histogram_equalization'' = Inr flag
           \<Longrightarrow> histogram_equalization_step E t = Inr t"
    and "getitem (preprocessing_parameters t) ''connected_components'' = Inr flag
           \<Longrightarrow> connected_components_step E t = Inr t"
    and "getitem (preprocessing_parameters t) ''per_channel_normalization'' = Inr flag
           \<Longrightarrow> per_channel_normalization_step E t = Inr t"
    and "getitem (preprocessing_parameters t) ''normalization'' = Inr flag
           \<Longrightarrow> normalization_step E t = Inr t"
    and "getitem (preprocessing_parameters t) ''zca_whitening'' = Inr flag
           \<Longrightarrow> zca_whitening_step E t = Inr t"
  using assms
  by (simp_all add: gaussian_blur_step_def histogram_equalization_step_def
      connected_components_step_def per_channel_normalization_step_def normalization_step_def
      zca_whitening_step_def bind_err_def)

section \<open>Claims about preprocessing, data loading and saving\<close>

text \<open>
  Claim C6 fails on the code at its last step. With one training image and two
  validation and two test images, whitening on and every other step off, the pipeline
  whitens the training image and the first validation and test image only: the loop
  runs over the indices of the training array, so the samples of the other two arrays
  at an index from the number of training samples on are left as they were.
\<close>

theorem zca_skips_samples_beyond_train:
  "apply_preprocessings E
     (t\<lparr>preprocessing_parameters :=
          AList.update ''zca_whitening'' (PyBool True)
            (AList.update ''normalization'' (PyBool False) default_preprocessing_parameters),
        data := Some \<lparr>train_images = [a1], train_masks = [m1],
                      val_images = [b1, b2], val_masks = [n1, n2],
                      test_images = [c1, c2], test_masks = [k1, k2]\<rparr>\<rparr>)
   = Inr (t\<lparr>preprocessing_parameters :=
          AList.update ''zca_whitening'' (PyBool True)
            (AList.update ''normalization'' (PyBool False) default_preprocessing_parameters),
        data := Some \<lparr>train_images = [gen_standardize E (gen_fit E [a1]) a1], train_masks = [m1],
                      val_images = [gen_standardize E (gen_fit E [a1]) b1, b2], val_masks = [n1, n2],
                      test_images = [gen_standardize E (gen_fit E [a1]) c1, c2],
                      test_masks = [k1, k2]\<rparr>\<rparr>)"
proof -
  let ?p = "AList.update ''zca_whitening'' (PyBool True)
            (AList.update ''normalization'' (PyBool False) default_preprocessing_parameters)"
  have g: "getitem ?p ''gaussian_blur'' = Inr (PyBool False)"
    "getitem ?p ''histogram_equalization'' = Inr (PyBool False)"
    "getitem ?p ''connected_components'' = Inr (PyBool False)"
    "getitem ?p ''per_channel_normalization'' = Inr (PyBool False)"
    "getitem ?p ''normalization'' = Inr (PyBool False)"
    "getitem ?p ''zca_whitening'' = Inr (PyBool True)"
    by code_simp+
  show ?thesis
    by (simp add: apply_preprocessings_def gaussian_blur_step_def histogram_equalization_step_def
        connected_components_step_def per_channel_normalization_step_def normalization_step_def
        zca_whitening_step_def bind_err_def g get_data_def Let_def upt_rec)
qed

text \<open>
  Claim C7, as stated, fails: what \<open>os.mkdir\<close> raises inside the handler reaches the
  caller. A trainer whose model was never built, in a tree where \<open>src/models\<close> exists,
  fails with \<open>FileExistsError\<close>; a built one, in a tree without \<open>src\<close>, fails with
  \<open>FileNotFoundError\<close>.
\<close>

theorem save_propagates_mkdir_error:
  "Trainer_init 8 256 [32, 64, 128, 256, 512] ''src/models/'' [] []
     = Inr (default_trainer :: unit trainer)
   \<and> weights_path (default_trainer :: unit trainer) ''03112026-101500''
       = ''src/models/UNet_model_256x256_03112026-101500.h5''
   \<and> save_weights (default_trainer :: unit trainer)
        \<lparr>dirs = [[''src''], [''src'', ''models'']], files = []\<rparr>
        ''src/models/UNet_model_256x256_03112026-101500.h5'' = Inl AttributeError
   \<and> save (default_trainer :: unit trainer) ''03112026-101500''
        \<lparr>dirs = [[''src''], [''src'', ''models'']], files = []\<rparr> = Inl FileExistsError
   \<and> build_model (default_trainer :: unit trainer)
       = Inr (default_trainer\<lparr>model := Some (UNet [32, 64, 128, 256, 512] 256 1)\<rparr>)
   \<and> save_weights
        ((default_trainer :: unit trainer)\<lparr>model := Some (UNet [32, 64, 128, 256, 512] 256 1)\<rparr>)
        \<lparr>dirs = [], files = []\<rparr>
        ''src/models/UNet_model_256x256_03112026-101500.h5'' = Inl OSError
   \<and> save ((default_trainer :: unit trainer)\<lparr>model := Some (UNet [32, 64, 128, 256, 512] 256 1)\<rparr>)
        ''03112026-101500'' \<lparr>dirs = [], files = []\<rparr> = Inl FileNotFoundError"
  by code_simp

text \<open>
  Claim C7, amended. When writing the weights fails, the exception is caught and
  \<open>os.mkdir\<close> is called once on the model directory. If that succeeds, the directory
  did not exist and now does, no weights file has been written (the save is not
  retried), and \<open>save\<close> returns the constructed path; if it raises, \<open>save\<close> raises the
  same error.
\<close>

theorem save_after_failed_write:
  assumes "save_weights t w (weights_path t timestamp) = Inl e"
  shows "(\<forall>w'. os_mkdir w (''./'' @ model_dir t) = Inr w' \<longrightarrow>
            save t timestamp w = Inr (weights_path t timestamp, w')
            \<and> dir_exists w' (components (''./'' @ model_dir t))
            \<and> \<not> dir_exists w (components (''./'' @ model_dir t))
            \<and> files w' = files w)
       \<and> (\<forall>e'. os_mkdir w (''./'' @ model_dir t) = Inl e' \<longrightarrow> save t timestamp w = Inl e')"
  using assms
  by (auto simp: save_def Let_def os_mkdir_def dir_exists_def split: if_splits)

theorem save_after_failed_write_witness:
  "save_weights ((default_trainer :: unit trainer)\<lparr>model := Some (UNet [32, 64, 128, 256, 512] 256 1)\<rparr>)
        \<lparr>dirs = [[''src'']], files = []\<rparr>
        (weights_path ((default_trainer :: unit trainer)\<lparr>model := Some (UNet [32, 64, 128, 256, 512] 256 1)\<rparr>)
           ''03112026-101500'') = Inl OSError
   \<and> os_mkdir \<lparr>dirs = [[''src'']], files = []\<rparr> ''./src/models/''
       = Inr \<lparr>dirs = [[''src'', ''models''], [''src'']], files = []\<rparr>
   \<and> save ((default_trainer :: unit trainer)\<lparr>model := Some (UNet [32, 64, 128, 256, 512] 256 1)\<rparr>)
        ''03112026-101500'' \<lparr>dirs = [[''src'']], files = []\<rparr>
       = Inr (''src/models/UNet_model_256x256_03112026-101500.h5'',
              \<lparr>dirs = [[''src'', ''models''], [''src'']], files = []\<rparr>)
   \<and> os_mkdir \<lparr>dirs = [], files = []\<rparr> ''./src/models/'' = Inl FileNotFoundError
   \<and> save ((default_trainer :: unit trainer)\<lparr>model := Some (UNet [32, 64, 128, 256, 512] 256 1)\<rparr>)
        ''03112026-101500'' \<lparr>dirs = [], files = []\<rparr> = Inl FileNotFoundError"
proof -
  let ?t = "(default_trainer :: unit trainer)\<lparr>model := Some (UNet [32, 64, 128, 256, 512] 256 1)\<rparr>"
  let ?w = "\<lparr>dirs = [[''src'']], files = []\<rparr>"
  let ?v = "\<lparr>dirs = [[''src'', ''models''], [''src'']], files = []\<rparr>"
  let ?u = "\<lparr>dirs = [], files = []\<rparr>"
  have p: "weights_path ?t ''03112026-101500'' = ''src/models/UNet_model_256x256_03112026-101500.h5''"
    by code_simp
  have md: "model_dir ?t = ''src/models/''" by (simp add: default_trainer_def)
  have h: "save_weights ?t ?w (weights_path ?t ''03112026-101500'') = Inl OSError" by code_simp
  have h0: "save_weights ?t ?u (weights_path ?t ''03112026-101500'') = Inl OSError" by code_simp
  have m: "os_mkdir ?w (''./'' @ model_dir ?t) = Inr ?v" by code_simp
  have m0: "os_mkdir ?u (''./'' @ model_dir ?t) = Inl FileNotFoundError" by code_simp
  from save_after_failed_write[OF h] m
  have s: "save ?t ''03112026-101500'' ?w = Inr (weights_path ?t ''03112026-101500'', ?v)"
    by blast
  from save_after_failed_write[OF h0] m0
  have s0: "save ?t ''03112026-101500'' ?u = Inl FileNotFoundError"
    by blast
  show ?thesis
    using h m s m0 s0 unfolding p md by simp
qed

text \<open>
  Claim C8. After \<open>load_data\<close> with a positive batch size \<open>b\<close>, the number of training
  steps is the ceiling of the number of training images over \<open>b\<close> and the number of
  validation steps the ceiling of the number of validation images over \<open>b\<close>, each from
  its own array.
\<close>

theorem steps_per_epoch:
  assumes "load_data E loaded t = Inr t'" and "0 < batch_size t"
  shows "\<exists>ds. data t' = Some ds
     \<and> train_steps t' =
         Some (nat \<lceil>(of_nat (length (train_images ds)) :: rat) / of_int (batch_size t)\<rceil>)
     \<and> valid_steps t' =
         Some (nat \<lceil>(of_nat (length (val_images ds)) :: rat) / of_int (batch_size t)\<rceil>)"
proof -
  from assms(1) obtain t1 t2 flag ds steps vsteps where
    l: "load_data_into_dict E loaded t = Inr t1"
    and p: "apply_preprocessings E t1 = Inr t2"
    and fl: "getitem (preprocessing_parameters t2) ''augumentation'' = Inr flag"
    and ds: "data t2 = Some ds"
    and st: "iterator_len (length (train_images ds)) (batch_size t2) = Inr steps"
    and vs: "iterator_len (length (val_images ds)) (batch_size t2) = Inr vsteps"
    and t': "t' = (if \<not> truthy flag then t2\<lparr>augument := [], augument_mask := []\<rparr> else t2)
                \<lparr>train_steps := Some steps, valid_steps := Some vsteps\<rparr>"
    by (auto simp: load_data_def bind_err_def get_data_def Let_def
        split: sum.splits option.splits if_splits)
  from l have "batch_size t1 = batch_size t"
    by (auto simp: load_data_into_dict_def Let_def split: if_splits)
  moreover have "batch_size t2 = batch_size t1"
  proof -
    have "batch_size t2 = batch_size (t1\<lparr>data := data t2, input_shape := input_shape t2\<rparr>)"
      using apply_preprocessings_frame[OF p] by (rule arg_cong)
    then show ?thesis by simp
  qed
  ultimately have b: "batch_size t2 = batch_size t" by simp
  from st vs show ?thesis
    using ds by (simp add: t' b iterator_len_pos[OF assms(2)])
qed

theorem steps_per_epoch_witness:
  "\<exists>t'. load_data identity_ext
          \<lparr>train_images = [1, 2, 3, 4, 5], train_masks = [1, 2, 3, 4, 5],
           val_images = [6, 7], val_masks = [6, 7],
           test_images = [8], test_masks = [8]\<rparr>
          (default_trainer\<lparr>batch_size := 2\<rparr>) = Inr t'
        \<and> train_steps t' = Some 3 \<and> valid_steps t' = Some 1"
proof -
  let ?L = "\<lparr>train_images = [1, 2, 3, 4, 5], train_masks = [1, 2, 3, 4, 5],
           val_images = [6, 7], val_masks = [6, 7],
           test_images = [8], test_masks = [8 :: nat]\<rparr>"
  let ?T = "(default_trainer :: nat trainer)\<lparr>batch_size := 2\<rparr>"
  let ?r = "load_data identity_ext ?L ?T"
  have "\<not> isl ?r" by code_simp
  then have h: "?r = Inr (projr ?r)" by simp
  have b: "0 < batch_size ?T" by simp
  have d: "data (projr ?r) = Some ?L" by code_simp
  have "\<lceil>(5 :: rat) / 2\<rceil> = 3" by (rule ceiling_unique) simp_all
  then have c: "nat \<lceil>(of_nat 5 :: rat) / of_int 2\<rceil> = 3"
    "nat \<lceil>(of_nat 2 :: rat) / of_int 2\<rceil> = 1"
    by simp_all
  from steps_per_epoch[OF h b] d
  have "train_steps (projr ?r) = Some (nat \<lceil>(of_nat (length (train_images ?L)) :: rat) / of_int (batch_size ?T)\<rceil>)"
    "valid_steps (projr ?r) = Some (nat \<lceil>(of_nat (length (val_images ?L)) :: rat) / of_int (batch_size ?T)\<rceil>)"
    by auto
  then have "train_steps (projr ?r) = Some 3" "valid_steps (projr ?r) = Some 1"
    using c by simp_all
  with h show ?thesis by blast
qed

end
